theory Spec2Isabelle
  imports Complex_Main "HOL-Library.AList"
begin

section \<open>The xeometry viewer (src/js/viewer.js) as a state machine\<close>

text \<open>
  The viewer is one JavaScript closure: a handful of dictionaries (\<open>models\<close>, \<open>objects\<close>,
  \<open>types\<close>, \<open>scales\<close>, ...) and the methods that read and write them. Each method is
  translated into a HOL function that takes the viewer state and returns the new one.

  Conventions of the translation:
  \<^item> a JavaScript argument that may be \<open>undefined\<close>, a string or an array is a \<open>jsval\<close>;
  \<^item> a JavaScript object used as a dictionary is an association list in insertion order,
    written with \<open>AList.update\<close> (keeps the position of an existing key, appends a new one)
    and \<open>AList.delete\<close>; \<open>Object.keys\<close> is \<open>map fst\<close>. A dictionary whose values are only
    references to the component of the same id is the list of its keys. The definitions
    look up own keys only and keep the order of insertion; JavaScript differs for ids
    that are array-index strings or names of members of \<open>Object.prototype\<close>, and the
    properties exclude such ids where they matter;
  \<^item> xeogl components are addressed by their id: \<open>ents\<close> and \<open>mods\<close> are the entities and
    models the renderer holds, \<open>theap\<close> holds the transform nodes, linked by parent
    pointers;
  \<^item> numbers are reals: rounding to Float32 and NaN are outside the model;
  \<^item> \<open>console.error\<close> and \<open>console.warn\<close> append to the field \<open>console\<close>;
  \<^item> methods that can recurse without bound (on strings that match nothing, or through
    type buckets that name themselves) take the depth of the call stack they may use as
    a first argument and come to \<open>StackOverflow\<close> when it is exhausted.
\<close>

subsection \<open>Values and dictionaries\<close>

datatype jsval = Undefined | Null | Str string | Num real | Arr "jsval list"

type_synonym 'v dict = "(string \<times> 'v) list"

definition keys :: "'v dict \<Rightarrow> string list" where
  "keys d = map fst d"

definition kput :: "string \<Rightarrow> string list \<Rightarrow> string list" where
  "kput k ks = (if k \<in> set ks then ks else ks @ [k])"

definition kdel :: "string \<Rightarrow> string list \<Rightarrow> string list" where
  "kdel k ks = removeAll k ks"

text \<open>
  What a call comes to: a new state, a call stack deeper than the bound given, or a
  TypeError thrown.
\<close>

datatype 'a outcome = Ok 'a | StackOverflow | TypeError

fun and_then :: "'a outcome \<Rightarrow> ('a \<Rightarrow> 'b outcome) \<Rightarrow> 'b outcome" where
  "and_then (Ok x) f = f x"
| "and_then StackOverflow f = StackOverflow"
| "and_then TypeError f = TypeError"

text \<open>A loop \<open>for (i = 0; i < xs.length; i++) f(xs[i])\<close> over calls that may fail.\<close>

definition for_each :: "('a \<Rightarrow> 's \<Rightarrow> 's outcome) \<Rightarrow> 'a list \<Rightarrow> 's \<Rightarrow> 's outcome" where
  "for_each f xs s = fold (\<lambda>x r. and_then r (f x)) xs (Ok s)"

subsection \<open>Components held by the renderer\<close>

record entity =
  meta_type :: "string option"
  e_visible :: bool
  alphaMode :: string
  alpha :: real
  diffuse :: "real list option"
  baseColor :: "real list option"
  e_clippable :: bool
  e_pickable :: bool
  e_outlined :: bool
  e_center :: "real list"
  e_matrix :: "real list"
  e_transform :: nat

datatype src = Path string | Data string | NoSrc

record model =
  m_src :: "src option"
  m_entities :: "string list option"
  m_center :: "real list"
  m_aabb :: "real list"
  m_transform :: nat

datatype tkind = Translate | Scale | Quaternion | Matrix

record tnode =
  t_kind :: tkind
  t_vals :: "real list"
  t_parent :: "nat option"

datatype ltype = AmbientLight | DirLight | PointLight

record light =
  l_type :: ltype
  l_color :: "real list option"
  l_intensity :: "real option"
  l_pos :: "real list option"
  l_dir :: "real list option"
  l_space :: "string option"

record clip =
  c_pos :: "real list option"
  c_dir :: "real list option"
  c_active :: bool

record annotation =
  a_entity :: "string option"
  a_primIndex :: nat
  a_bary :: "real list option"
  a_eye :: "real list option"
  a_look :: "real list option"
  a_up :: "real list option"
  a_occludable :: bool
  a_glyph :: string
  a_title :: string
  a_desc :: string
  a_pinShown :: bool
  a_labelShown :: bool

record comp =
  worldBoundary :: "real list option"
  pos :: "real list option"

record camera =
  eye :: "real list"
  look :: "real list"
  up :: "real list"
  gimbalLockY :: bool
  projectionType :: string
  perspectiveNear :: real
  perspectiveFar :: real
  perspectiveFOV :: real
  orthoNear :: real
  orthoFar :: real
  orthoScale :: real
  viewFitFOV :: real
  fitFOV :: real
  viewFitDuration :: real
  outlineThickness :: real
  outlineColor :: "real list"

subsection \<open>The viewer state\<close>

record viewer =
  ents :: "string \<Rightarrow> entity"
  mods :: "string \<Rightarrow> model"
  theap :: "nat \<Rightarrow> tnode"
  t_next :: nat
  components :: "comp dict"
  scene_aabb :: "real list"
  scene_center :: "real list"
  scene_destroyed :: bool
  types :: "string list dict"
  models :: "string list"
  modelSrcs :: "src dict"
  objects :: "string list"
  annotations :: "annotation dict"
  objectAnnotations :: "string list dict"
  eulerAngles :: "real list dict"
  rotations :: "nat dict"
  "translations" :: "nat dict"
  scales :: "nat dict"
  objectModels :: "string dict"
  transformable :: "string list"
  clips :: "clip dict"
  clipHelpers :: "bool dict"
  clipsDirty :: bool
  lights :: "light dict"
  lightHelpers :: "bool dict"
  lightsDirty :: bool
  cam :: camera
  console :: "string list"

definition error :: "string \<Rightarrow> viewer \<Rightarrow> viewer" where
  "error msg s = s\<lparr>console := console s @ [''[xeometry] '' @ msg]\<rparr>"

definition warn :: "string \<Rightarrow> viewer \<Rightarrow> viewer" where
  "warn msg s = s\<lparr>console := console s @ [''[xeometry] '' @ msg]\<rparr>"

subsection \<open>getObjects\<close>

text \<open>
  The inner loop of the list branch: an id is pushed to \<open>result\<close> unless \<open>got\<close> has it.
\<close>

fun push_new :: "string \<Rightarrow> string list \<times> string list \<Rightarrow> string list \<times> string list" where
  "push_new id2 (result, got) =
     (if id2 \<in> set got then (result, got) else (result @ [id2], kput id2 got))"

text \<open>
  \<open>getObjects\<close> returns the ids and the messages it passes to \<open>error\<close>. In the list branch
  the two nested loops visit the elements of the buffers of the entries one after the other.
\<close>

fun getObjects :: "viewer \<Rightarrow> jsval \<Rightarrow> string list \<times> string list" where
  "getObjects s Undefined = (objects s, [])"
| "getObjects s Null = (objects s, [])"
| "getObjects s (Str ident) =
     (if ident \<in> set (objects s) then ([ident], [])
      else (case map_of (types s) ident of
        Some objectsOfType \<Rightarrow> (objectsOfType, [])
      | None \<Rightarrow>
          if ident \<notin> set (models s) then ([], [''Model not found: '' @ ident])
          else (case m_entities (mods s ident) of
            None \<Rightarrow> ([], [])
          | Some entities \<Rightarrow> (entities, []))))"
| "getObjects s (Arr ids) =
     (let bufs = map (getObjects s) ids
      in (fst (fold push_new (concat (map fst bufs)) ([], [])), concat (map snd bufs)))"
| "getObjects s (Num x) = ([], [])"

subsection \<open>setType\<close>

definition type_of :: "entity \<Rightarrow> string" where
  "type_of e = (case meta_type e of
      Some t \<Rightarrow> if t = [] then ''DEFAULT'' else t
    | None \<Rightarrow> ''DEFAULT'')"

definition type_or_default :: "string option \<Rightarrow> string" where
  "type_or_default ty = (case ty of
      Some t \<Rightarrow> if t = [] then ''DEFAULT'' else t
    | None \<Rightarrow> ''DEFAULT'')"

text \<open>The branch of \<open>setType\<close> for a string id.\<close>

definition setType_str :: "string \<Rightarrow> string option \<Rightarrow> viewer \<Rightarrow> viewer" where
  "setType_str ident ty s =
     (let type = type_or_default ty in
      if ident \<in> set (objects s) then
        (let currentType = type_of (ents s ident) in
         if currentType = type then s
         else
           let s1 = (case map_of (types s) currentType of
                       Some currentTypes \<Rightarrow>
                         s\<lparr>types := AList.update currentType (kdel ident currentTypes) (types s)\<rparr>
                     | None \<Rightarrow> s);
               newTypes = (case map_of (types s1) type of Some b \<Rightarrow> b | None \<Rightarrow> []);
               s2 = s1\<lparr>types := AList.update type (kput ident newTypes) (types s1)\<rparr>
           in s2\<lparr>ents := (ents s2)(ident := (ents s2 ident)\<lparr>meta_type := Some type\<rparr>)\<rparr>)
      else if ident \<in> set (models s) then s
      else error (''Model, object or type not found: '' @ ident) s)"

text \<open>
  Anything that is not a string is iterated by index; \<open>undefined.length\<close> throws a
  TypeError, a number has no length and the loop does not run.
\<close>

fun setType :: "jsval \<Rightarrow> string option \<Rightarrow> viewer \<Rightarrow> viewer outcome" where
  "setType (Str ident) ty s = Ok (setType_str ident ty s)"
| "setType (Arr ids) ty s = fold (\<lambda>x r. and_then r (setType x ty)) ids (Ok s)"
| "setType (Num x) ty s = Ok s"
| "setType Undefined ty s = TypeError"
| "setType Null ty s = TypeError"

subsection \<open>Lists of ids\<close>

definition getModels :: "viewer \<Rightarrow> string list" where
  "getModels s = models s"

definition getLights :: "viewer \<Rightarrow> string list" where
  "getLights s = keys (lights s)"

definition getClips :: "viewer \<Rightarrow> string list" where
  "getClips s = keys (clips s)"

definition getAnnotations :: "viewer \<Rightarrow> string list" where
  "getAnnotations s = keys (annotations s)"

definition is_key :: "'v dict \<Rightarrow> string \<Rightarrow> bool" where
  "is_key d k = (map_of d k \<noteq> None)"

text \<open>The ids \<open>self.getObjects(id)\<close> returns, as the argument of the next call.\<close>

definition objects_of :: "viewer \<Rightarrow> jsval \<Rightarrow> jsval" where
  "objects_of s ident = Arr (map Str (fst (getObjects s ident)))"

definition logged :: "viewer \<Rightarrow> jsval \<Rightarrow> viewer" where
  "logged s ident = fold error (snd (getObjects s ident)) s"

subsection \<open>Visibility\<close>

fun setVisible :: "nat \<Rightarrow> jsval \<Rightarrow> bool \<Rightarrow> viewer \<Rightarrow> viewer outcome" where
  "setVisible 0 ids visible s = StackOverflow"
| "setVisible (Suc n) Undefined visible s =
     and_then (setVisible n (objects_of s Undefined) visible s) (\<lambda>s1.
     and_then (setVisible n (Arr (map Str (getLights s1))) visible s1) (\<lambda>s2.
     setVisible n (Arr (map Str (getClips s2))) visible s2))"
| "setVisible (Suc n) Null visible s =
     and_then (setVisible n (objects_of s Undefined) visible s) (\<lambda>s1.
     and_then (setVisible n (Arr (map Str (getLights s1))) visible s1) (\<lambda>s2.
     setVisible n (Arr (map Str (getClips s2))) visible s2))"
| "setVisible (Suc n) (Str ident) visible s =
     (if ident \<in> set (objects s) then
        Ok (s\<lparr>ents := (ents s)(ident := (ents s ident)\<lparr>e_visible := visible\<rparr>)\<rparr>)
      else if is_key (lights s) ident then
        Ok (if is_key (lightHelpers s) ident
            then s\<lparr>lightHelpers := AList.update ident visible (lightHelpers s)\<rparr> else s)
      else if is_key (clipHelpers s) ident then
        Ok (s\<lparr>clipHelpers := AList.update ident visible (clipHelpers s)\<rparr>)
      else if ident \<notin> set (models s) then
        (case map_of (types s) ident of
           Some objectsOfType \<Rightarrow>
             if objectsOfType = [] then Ok s
             else setVisible n (Arr (map Str objectsOfType)) visible s
         | None \<Rightarrow> Ok (error (''Model, object or type not found: '' @ ident) s))
      else setVisible n (objects_of s (Str ident)) visible (logged s (Str ident)))"
| "setVisible (Suc n) (Arr ids) visible s =
     fold (\<lambda>x r. and_then r (setVisible n x visible)) ids (Ok s)"
| "setVisible (Suc n) (Num x) visible s = Ok s"

definition "show" :: "nat \<Rightarrow> jsval \<Rightarrow> viewer \<Rightarrow> viewer outcome" where
  "show n ids s = setVisible n ids True s"

definition hide :: "nat \<Rightarrow> jsval \<Rightarrow> viewer \<Rightarrow> viewer outcome" where
  "hide n ids s = setVisible n ids False s"

subsection \<open>Opacity and colour\<close>

definition opacity_or_default :: "real option \<Rightarrow> real" where
  "opacity_or_default opacity = (case opacity of None \<Rightarrow> 1 | Some x \<Rightarrow> x)"

fun setOpacity :: "nat \<Rightarrow> jsval \<Rightarrow> real option \<Rightarrow> viewer \<Rightarrow> viewer outcome" where
  "setOpacity 0 ids opacity s = StackOverflow"
| "setOpacity (Suc n) Undefined opacity s =
     setOpacity n (objects_of s Undefined) (Some (opacity_or_default opacity)) s"
| "setOpacity (Suc n) Null opacity s =
     setOpacity n (objects_of s Undefined) (Some (opacity_or_default opacity)) s"
| "setOpacity (Suc n) (Str ident) opacity s =
     (let opacity = opacity_or_default opacity in
      if ident \<in> set (objects s) then
        Ok (s\<lparr>ents := (ents s)(ident := (ents s ident)
              \<lparr>alphaMode := (if opacity < 1 then ''blend'' else ''opaque''), alpha := opacity\<rparr>)\<rparr>)
      else if ident \<notin> set (models s) then
        (case map_of (types s) ident of
           Some objectsOfType \<Rightarrow>
             if objectsOfType = [] then Ok s
             else setOpacity n (Arr (map Str objectsOfType)) (Some opacity) s
         | None \<Rightarrow> Ok (error (''Model, object or type not found: '' @ ident) s))
      else setOpacity n (objects_of s (Str ident)) (Some opacity) (logged s (Str ident)))"
| "setOpacity (Suc n) (Arr ids) opacity s =
     fold (\<lambda>x r. and_then r (setOpacity n x (Some (opacity_or_default opacity)))) ids (Ok s)"
| "setOpacity (Suc n) (Num x) opacity s = Ok s"

definition getOpacity :: "viewer \<Rightarrow> string \<Rightarrow> real \<times> viewer" where
  "getOpacity s ident =
     (if ident \<notin> set (objects s)
      then (1, error (''Model, object or type not found: '' @ ident) s)
      else (alpha (ents s ident), s))"

definition color_or_default :: "real list option \<Rightarrow> real list" where
  "color_or_default color = (case color of None \<Rightarrow> [1, 1, 1] | Some c \<Rightarrow> c)"

definition set_material_color :: "real list \<Rightarrow> entity \<Rightarrow> entity" where
  "set_material_color color e =
     (if diffuse e \<noteq> None then e\<lparr>diffuse := Some color\<rparr> else e\<lparr>baseColor := Some color\<rparr>)"

fun setColor :: "nat \<Rightarrow> jsval \<Rightarrow> real list option \<Rightarrow> viewer \<Rightarrow> viewer outcome" where
  "setColor 0 ids color s = StackOverflow"
| "setColor (Suc n) Undefined color s =
     setColor n (objects_of s Undefined) (Some (color_or_default color)) s"
| "setColor (Suc n) Null color s =
     setColor n (objects_of s Undefined) (Some (color_or_default color)) s"
| "setColor (Suc n) (Str ident) color s =
     (let color = color_or_default color in
      if ident \<in> set (objects s) then
        Ok (s\<lparr>ents := (ents s)(ident := set_material_color color (ents s ident))\<rparr>)
      else (case map_of (lights s) ident of
        Some light \<Rightarrow>
          Ok (s\<lparr>lights := AList.update ident (light\<lparr>l_color := Some color\<rparr>) (lights s)\<rparr>)
      | None \<Rightarrow>
          if ident \<notin> set (models s) then
            (case map_of (types s) ident of
               Some objectsOfType \<Rightarrow>
                 if objectsOfType = [] then Ok s
                 else setColor n (Arr (map Str objectsOfType)) (Some color) s
             | None \<Rightarrow> Ok (error (''Model, object or type not found: '' @ ident) s))
          else setColor n (objects_of s (Str ident)) (Some color) (logged s (Str ident))))"
| "setColor (Suc n) (Arr ids) color s =
     fold (\<lambda>x r. and_then r (setColor n x (Some (color_or_default color)))) ids (Ok s)"
| "setColor (Suc n) (Num x) color s = Ok s"

definition getColor :: "viewer \<Rightarrow> string \<Rightarrow> real list option \<times> viewer" where
  "getColor s ident =
     (if ident \<in> set (objects s) then
        (Some (case diffuse (ents s ident) of
                 Some c \<Rightarrow> c
               | None \<Rightarrow> (case baseColor (ents s ident) of Some c \<Rightarrow> c | None \<Rightarrow> [1, 1, 1])), s)
      else (case map_of (lights s) ident of
        Some light \<Rightarrow> (l_color light, s)
      | None \<Rightarrow> (None, error (''Object or light not found: '' @ ident) s)))"

subsection \<open>Clippability, pickability, outlines\<close>

fun setClippable :: "nat \<Rightarrow> jsval \<Rightarrow> bool \<Rightarrow> viewer \<Rightarrow> viewer outcome" where
  "setClippable 0 ids clippable s = StackOverflow"
| "setClippable (Suc n) Undefined clippable s = setClippable n (objects_of s Undefined) clippable s"
| "setClippable (Suc n) Null clippable s = setClippable n (objects_of s Undefined) clippable s"
| "setClippable (Suc n) (Str ident) clippable s =
     (if ident \<in> set (objects s) then
        Ok (s\<lparr>ents := (ents s)(ident := (ents s ident)\<lparr>e_clippable := clippable\<rparr>)\<rparr>)
      else if ident \<notin> set (models s) then
        (case map_of (types s) ident of
           Some objectsOfType \<Rightarrow>
             if objectsOfType = [] then Ok s
             else setClippable n (Arr (map Str objectsOfType)) clippable s
         | None \<Rightarrow> Ok (error (''Model, object or type not found: '' @ ident) s))
      else setClippable n (objects_of s (Str ident)) clippable (logged s (Str ident)))"
| "setClippable (Suc n) (Arr ids) clippable s =
     fold (\<lambda>x r. and_then r (setClippable n x clippable)) ids (Ok s)"
| "setClippable (Suc n) (Num x) clippable s = Ok s"

fun setPickable :: "nat \<Rightarrow> jsval \<Rightarrow> bool \<Rightarrow> viewer \<Rightarrow> viewer outcome" where
  "setPickable 0 ids pickable s = StackOverflow"
| "setPickable (Suc n) Undefined pickable s = setPickable n (objects_of s Undefined) pickable s"
| "setPickable (Suc n) Null pickable s = setPickable n (objects_of s Undefined) pickable s"
| "setPickable (Suc n) (Str ident) pickable s =
     (if ident \<in> set (objects s) then
        Ok (s\<lparr>ents := (ents s)(ident := (ents s ident)\<lparr>e_pickable := pickable\<rparr>)\<rparr>)
      else if ident \<notin> set (models s) then
        (case map_of (types s) ident of
           Some objectsOfType \<Rightarrow>
             if objectsOfType = [] then Ok s
             else setPickable n (Arr (map Str objectsOfType)) pickable s
         | None \<Rightarrow> Ok (error (''Model, object or type not found: '' @ ident) s))
      else setPickable n (objects_of s (Str ident)) pickable (logged s (Str ident)))"
| "setPickable (Suc n) (Arr ids) pickable s =
     fold (\<lambda>x r. and_then r (setPickable n x pickable)) ids (Ok s)"
| "setPickable (Suc n) (Num x) pickable s = Ok s"

fun setOutline :: "nat \<Rightarrow> jsval \<Rightarrow> bool \<Rightarrow> viewer \<Rightarrow> viewer outcome" where
  "setOutline 0 ids outline s = StackOverflow"
| "setOutline (Suc n) Undefined outline s = setOutline n (objects_of s Undefined) outline s"
| "setOutline (Suc n) Null outline s = setOutline n (objects_of s Undefined) outline s"
| "setOutline (Suc n) (Str ident) outline s =
     (if ident \<in> set (objects s) then
        Ok (s\<lparr>ents := (ents s)(ident := (ents s ident)\<lparr>e_outlined := outline\<rparr>)\<rparr>)
      else if ident \<notin> set (models s) then
        (case map_of (types s) ident of
           Some objectsOfType \<Rightarrow>
             if objectsOfType = [] then Ok s
             else setOutline n (Arr (map Str objectsOfType)) outline s
         | None \<Rightarrow> Ok (error (''Model, object or type not found: '' @ ident) s))
      else setOutline n (objects_of s (Str ident)) outline (logged s (Str ident)))"
| "setOutline (Suc n) (Arr ids) outline s =
     fold (\<lambda>x r. and_then r (setOutline n x outline)) ids (Ok s)"
| "setOutline (Suc n) (Num x) outline s = Ok s"

subsection \<open>destroy\<close>

definition falsy :: "jsval \<Rightarrow> bool" where
  "falsy v = (case v of
      Undefined \<Rightarrow> True | Null \<Rightarrow> True | Str x \<Rightarrow> x = [] | Num r \<Rightarrow> r = 0 | Arr xs \<Rightarrow> False)"

text \<open>
  \<open>v[0], ..., v[v.length - 1]\<close>: the one-character strings of a string, the entries of an
  array, nothing for a number.
\<close>

definition elements :: "jsval \<Rightarrow> jsval list" where
  "elements v = (case v of Str x \<Rightarrow> map (\<lambda>c. Str [c]) x | Arr xs \<Rightarrow> xs | _ \<Rightarrow> [])"

text \<open>The branch \<open>!id\<close>: the scene goes, and the dictionaries the source lists are reset.\<close>

definition destroy_everything :: "viewer \<Rightarrow> viewer" where
  "destroy_everything s = s\<lparr>scene_destroyed := True, components := [],
     models := [], objects := [], objectModels := [], eulerAngles := [], transformable := [],
     translations := [], rotations := [], scales := [], annotations := [],
     objectAnnotations := [], clips := [], clipHelpers := []\<rparr>"

text \<open>
  \<open>delete objectAnnotations[annotation.entity.id][annotation.id]\<close> throws when the entity
  has no entry in \<open>objectAnnotations\<close>.
\<close>

definition destroy_annotation :: "string \<Rightarrow> annotation \<Rightarrow> viewer \<Rightarrow> viewer outcome" where
  "destroy_annotation ident annotation s =
     and_then
       (case a_entity annotation of
          None \<Rightarrow> Ok s
        | Some entity \<Rightarrow>
            (case map_of (objectAnnotations s) entity of
               None \<Rightarrow> TypeError
             | Some oa \<Rightarrow>
                 Ok (s\<lparr>objectAnnotations := AList.update entity (kdel ident oa) (objectAnnotations s)\<rparr>)))
       (\<lambda>s1. Ok (s1\<lparr>components := AList.delete ident (components s1),
                     annotations := AList.delete ident (annotations s1)\<rparr>))"

definition destroy_light :: "nat \<Rightarrow> string \<Rightarrow> viewer \<Rightarrow> viewer outcome" where
  "destroy_light n ident s =
     and_then (hide n (Str ident) s) (\<lambda>s1.
       Ok (s1\<lparr>components := AList.delete ident (components s1),
               lights := AList.delete ident (lights s1),
               lightHelpers := AList.delete ident (lightHelpers s1),
               lightsDirty := True\<rparr>))"

definition destroy_clip :: "nat \<Rightarrow> string \<Rightarrow> viewer \<Rightarrow> viewer outcome" where
  "destroy_clip n ident s =
     and_then (hide n (Str ident) s) (\<lambda>s1.
       Ok (s1\<lparr>components := AList.delete ident (components s1),
               clips := AList.delete ident (clips s1),
               clipHelpers := AList.delete ident (clipHelpers s1),
               clipsDirty := True\<rparr>))"

text \<open>
  The body of the loop over the entities of a model. \<open>aabbHelpers\<close> is never written in
  the source, so the two lookups in it find nothing.
\<close>

definition deregister_object :: "string \<Rightarrow> viewer \<Rightarrow> viewer" where
  "deregister_object objectId s =
     (let type = type_of (ents s objectId);
          s1 = (case map_of (types s) type of
                  Some objectsOfType \<Rightarrow>
                    s\<lparr>types := AList.update type (kdel objectId objectsOfType) (types s)\<rparr>
                | None \<Rightarrow> s)
      in s1\<lparr>objects := kdel objectId (objects s1),
             objectModels := AList.delete objectId (objectModels s1),
             eulerAngles := AList.delete objectId (eulerAngles s1),
             transformable := kdel objectId (transformable s1),
             translations := AList.delete objectId (translations s1),
             rotations := AList.delete objectId (rotations s1),
             scales := AList.delete objectId (scales s1)\<rparr>)"

definition entities_of :: "viewer \<Rightarrow> string \<Rightarrow> string list" where
  "entities_of s ident = (case m_entities (mods s ident) of None \<Rightarrow> [] | Some es \<Rightarrow> es)"

text \<open>
  \<open>model.destroy()\<close> takes the model and its entities out of \<open>scene.components\<close>. The
  optional callbacks of the constructor (\<open>loadModel\<close>, \<open>loadedModel\<close>, \<open>unloadedModel\<close>)
  are taken to be absent.
\<close>

definition destroy_model :: "string \<Rightarrow> viewer \<Rightarrow> viewer" where
  "destroy_model ident s =
     (let entities = entities_of s ident;
          s1 = fold deregister_object entities s
      in s1\<lparr>components := fold AList.delete (ident # entities) (components s1),
             models := kdel ident (models s1),
             modelSrcs := AList.delete ident (modelSrcs s1),
             eulerAngles := AList.delete ident (eulerAngles s1),
             transformable := kdel ident (transformable s1),
             translations := AList.delete ident (translations s1),
             rotations := AList.delete ident (rotations s1),
             scales := AList.delete ident (scales s1)\<rparr>)"

text \<open>
  The four lookups of the string branch, in the order of the source. \<open>None\<close>: nothing
  matched, and control falls through to the loop at the end of \<open>destroy\<close>.
\<close>

definition destroy_named :: "nat \<Rightarrow> string \<Rightarrow> viewer \<Rightarrow> viewer outcome option" where
  "destroy_named n ident s =
     (case map_of (annotations s) ident of
        Some annotation \<Rightarrow> Some (destroy_annotation ident annotation s)
      | None \<Rightarrow>
          if is_key (lights s) ident then Some (destroy_light n ident s)
          else if is_key (clips s) ident then Some (destroy_clip n ident s)
          else if ident \<in> set (models s) then Some (Ok (destroy_model ident s))
          else None)"

fun destroy :: "nat \<Rightarrow> jsval \<Rightarrow> viewer \<Rightarrow> viewer outcome" where
  "destroy 0 ident s = StackOverflow"
| "destroy (Suc n) ident s =
     (if falsy ident then Ok (destroy_everything s)
      else (case (case ident of Str x \<Rightarrow> destroy_named n x s | _ \<Rightarrow> None) of
        Some r \<Rightarrow> r
      | None \<Rightarrow> fold (\<lambda>x r. and_then r (destroy n x)) (elements ident) (Ok s)))"

definition destroyAnnotations :: "nat \<Rightarrow> viewer \<Rightarrow> viewer outcome" where
  "destroyAnnotations n s = destroy n (Arr (map Str (getAnnotations s))) s"

definition destroyClips :: "nat \<Rightarrow> viewer \<Rightarrow> viewer outcome" where
  "destroyClips n s = destroy n (Arr (map Str (getClips s))) s"

definition destroyLights :: "nat \<Rightarrow> viewer \<Rightarrow> viewer outcome" where
  "destroyLights n s = destroy n (Arr (map Str (getLights s))) s"

definition clear :: "nat \<Rightarrow> viewer \<Rightarrow> viewer outcome" where
  "clear n s =
     and_then (fold (\<lambda>x r. and_then r (destroy n (Str x))) (models s) (Ok s)) (\<lambda>s1.
     and_then (destroyAnnotations n s1) (\<lambda>s2.
     and_then (destroyClips n s2) (\<lambda>s3.
     destroyLights n s3)))"

subsection \<open>Lights, clip planes, annotations\<close>

record light_cfg =
  lc_type :: "string option"
  lc_color :: "real list option"
  lc_intensity :: "real option"
  lc_pos :: "real list option"
  lc_dir :: "real list option"
  lc_space :: "string option"
  lc_shown :: bool

definition createLight :: "nat \<Rightarrow> string \<Rightarrow> light_cfg option \<Rightarrow> viewer \<Rightarrow> viewer outcome" where
  "createLight n ident cfg s =
     (if is_key (components s) ident then
        Ok (error (''Component with this ID already exists: '' @ ident) s)
      else (case cfg of
        None \<Rightarrow> Ok (error ''Light configuration expected'' s)
      | Some cfg \<Rightarrow>
          let type = (case lc_type cfg of None \<Rightarrow> ''dir'' | Some ty \<Rightarrow> if ty = [] then ''dir'' else ty);
              light =
                (if type = ''ambient'' then
                   \<lparr>l_type = AmbientLight, l_color = lc_color cfg, l_intensity = lc_intensity cfg,
                    l_pos = None, l_dir = None, l_space = None\<rparr>
                 else if type = ''point'' then
                   \<lparr>l_type = PointLight, l_color = lc_color cfg, l_intensity = lc_intensity cfg,
                    l_pos = lc_pos cfg, l_dir = None, l_space = lc_space cfg\<rparr>
                 else
                   \<lparr>l_type = DirLight, l_color = lc_color cfg, l_intensity = lc_intensity cfg,
                    l_pos = None, l_dir = lc_dir cfg, l_space = lc_space cfg\<rparr>);
              s0 = (if type \<noteq> ''ambient'' \<and> type \<noteq> ''point'' \<and> type \<noteq> ''dir''
                    then error (''Light type not recognized: '' @ type @ '' - defaulting to 'dir'' @ [CHR 0x27]) s
                    else s);
              s1 = s0\<lparr>components :=
                        AList.update ident \<lparr>worldBoundary = None, pos = l_pos light\<rparr> (components s0),
                      lights := AList.update ident light (lights s0),
                      lightsDirty := True\<rparr>
          in if lc_shown cfg then show n (Str ident) s1 else hide n (Str ident) s1))"

definition dir_light :: "real list \<Rightarrow> real list \<Rightarrow> light_cfg" where
  "dir_light d c = \<lparr>lc_type = Some ''dir'', lc_color = Some c, lc_intensity = Some 1,
     lc_pos = None, lc_dir = Some d, lc_space = Some ''view'', lc_shown = False\<rparr>"

definition defaultLights :: "nat \<Rightarrow> viewer \<Rightarrow> viewer outcome" where
  "defaultLights n s =
     and_then (destroyLights n s) (\<lambda>s0.
     and_then (createLight n ''light0''
       (Some \<lparr>lc_type = Some ''ambient'', lc_color = Some [1, 1, 1], lc_intensity = Some 1,
              lc_pos = None, lc_dir = None, lc_space = None, lc_shown = False\<rparr>) s0) (\<lambda>s1.
     and_then (createLight n ''light1''
       (Some (dir_light [0.8, -0.6, -0.8] [1.0, 1.0, 1.0])) s1) (\<lambda>s2.
     and_then (createLight n ''light2''
       (Some (dir_light [-0.8, -0.3, -0.4] [0.8, 0.8, 0.8])) s2) (\<lambda>s3.
     createLight n ''light3''
       (Some (dir_light [0.4, -0.4, 0.8] [0.8, 1.0, 1.0])) s3))))"

record clip_cfg =
  cc_pos :: "real list option"
  cc_dir :: "real list option"
  cc_active :: "bool option"
  cc_shown :: bool

text \<open>A clip plane is active unless told otherwise; its helper is created visible.\<close>

definition createClip :: "nat \<Rightarrow> string \<Rightarrow> clip_cfg option \<Rightarrow> viewer \<Rightarrow> viewer outcome" where
  "createClip n ident cfg s =
     (if is_key (components s) ident then
        Ok (error (''Component with this ID already exists: '' @ ident) s)
      else (case cfg of
        None \<Rightarrow> Ok (error ''Clip configuration expected'' s)
      | Some cfg \<Rightarrow>
          let clip = \<lparr>c_pos = cc_pos cfg, c_dir = cc_dir cfg,
                      c_active = (case cc_active cfg of None \<Rightarrow> True | Some b \<Rightarrow> b)\<rparr>;
              s1 = s\<lparr>components :=
                       AList.update ident \<lparr>worldBoundary = None, pos = cc_pos cfg\<rparr> (components s),
                     clips := AList.update ident clip (clips s),
                     clipHelpers := AList.update ident True (clipHelpers s),
                     clipsDirty := True\<rparr>
          in if cc_shown cfg then show n (Str ident) s1 else hide n (Str ident) s1))"

record annotation_cfg =
  ac_object :: "string option"
  ac_primIndex :: "nat option"
  ac_bary :: "real list option"
  ac_eye :: "real list option"
  ac_look :: "real list option"
  ac_up :: "real list option"
  ac_occludable :: "bool option"
  ac_glyph :: "string option"
  ac_title :: "string option"
  ac_desc :: "string option"
  ac_pinShown :: "bool option"
  ac_labelShown :: "bool option"

definition flag_or_true :: "bool option \<Rightarrow> bool" where
  "flag_or_true b = (case b of None \<Rightarrow> True | Some x \<Rightarrow> x)"

definition text_or_empty :: "string option \<Rightarrow> string" where
  "text_or_empty x = (case x of None \<Rightarrow> [] | Some y \<Rightarrow> y)"

definition createAnnotation :: "string \<Rightarrow> annotation_cfg option \<Rightarrow> viewer \<Rightarrow> viewer" where
  "createAnnotation ident cfg s =
     (if is_key (components s) ident then
        error (''Component with this ID already exists: '' @ ident) s
      else (case cfg of
        None \<Rightarrow> error ''Annotation configuration expected'' s
      | Some cfg \<Rightarrow>
         (case ac_object cfg of
            None \<Rightarrow> error ''Annotation property expected: objectId'' s
          | Some objectId \<Rightarrow>
              if objectId \<notin> set (objects s) then error (''Object not found: '' @ objectId) s
              else (case ac_primIndex cfg of
                None \<Rightarrow> error ''Annotation property expected: primIndex'' s
              | Some primIndex \<Rightarrow>
                  let annotation = \<lparr>a_entity = Some objectId, a_primIndex = primIndex,
                        a_bary = ac_bary cfg, a_eye = ac_eye cfg, a_look = ac_look cfg,
                        a_up = ac_up cfg, a_occludable = flag_or_true (ac_occludable cfg),
                        a_glyph = text_or_empty (ac_glyph cfg),
                        a_title = text_or_empty (ac_title cfg),
                        a_desc = text_or_empty (ac_desc cfg),
                        a_pinShown = flag_or_true (ac_pinShown cfg),
                        a_labelShown = flag_or_true (ac_labelShown cfg)\<rparr>;
                      oa = (case map_of (objectAnnotations s) objectId of
                              Some oa \<Rightarrow> oa | None \<Rightarrow> [])
                  in s\<lparr>components :=
                         AList.update ident \<lparr>worldBoundary = None, pos = None\<rparr> (components s),
                       annotations := AList.update ident annotation (annotations s),
                       objectAnnotations :=
                         AList.update objectId (kput ident oa) (objectAnnotations s)\<rparr>))))"

subsection \<open>A new viewer\<close>

definition blank_entity :: entity where
  "blank_entity = \<lparr>meta_type = None, e_visible = True, alphaMode = ''opaque'', alpha = 1,
     diffuse = None, baseColor = None, e_clippable = True, e_pickable = True,
     e_outlined = False, e_center = [0, 0, 0], e_matrix = [], e_transform = 0\<rparr>"

definition blank_model :: model where
  "blank_model = \<lparr>m_src = None, m_entities = None, m_center = [0, 0, 0],
     m_aabb = [0, 0, 0, 0, 0, 0], m_transform = 0\<rparr>"

definition blank_node :: tnode where
  "blank_node = \<lparr>t_kind = Matrix, t_vals = [], t_parent = None\<rparr>"

text \<open>
  The state the constructor sets up before it calls \<open>defaultLights\<close>. The camera values
  that the constructor does not set are the defaults of xeogl that \<open>getBookmark\<close> names.
\<close>

definition new_viewer :: viewer where
  "new_viewer = \<lparr>ents = (\<lambda>x. blank_entity), mods = (\<lambda>x. blank_model),
     theap = (\<lambda>x. blank_node), t_next = 0, components = [],
     scene_aabb = [0, 0, 0, 0, 0, 0], scene_center = [0, 0, 0], scene_destroyed = False,
     types = [], models = [], modelSrcs = [], objects = [], annotations = [],
     objectAnnotations = [], eulerAngles = [], rotations = [], translations = [],
     scales = [], objectModels = [], transformable = [], clips = [], clipHelpers = [],
     clipsDirty = True, lights = [], lightHelpers = [], lightsDirty = False,
     cam = \<lparr>eye = [0, 0, 10], look = [0, 0, 0], up = [0, 1, 0], gimbalLockY = True,
       projectionType = ''perspective'', perspectiveNear = 0.1, perspectiveFar = 5000,
       perspectiveFOV = 60, orthoNear = 0.1, orthoFar = 5000, orthoScale = 1,
       viewFitFOV = 45, fitFOV = 45, viewFitDuration = 0, outlineThickness = 15,
       outlineColor = [1, 1, 0]\<rparr>,
     console = []\<rparr>"

definition Viewer :: "nat \<Rightarrow> viewer outcome" where
  "Viewer n = defaultLights n new_viewer"

text \<open>Reading a state off an outcome, for the concrete runs below.\<close>

definition returns :: "'a outcome \<Rightarrow> bool" where
  "returns r = (case r of Ok x \<Rightarrow> True | _ \<Rightarrow> False)"

definition state_of :: "viewer outcome \<Rightarrow> viewer" where
  "state_of r = (case r of Ok s \<Rightarrow> s | _ \<Rightarrow> new_viewer)"

subsection \<open>Loading a model\<close>

definition new_node :: "tkind \<Rightarrow> real list \<Rightarrow> nat option \<Rightarrow> viewer \<Rightarrow> nat \<times> viewer" where
  "new_node k vals parent s =
     (t_next s,
      s\<lparr>theap := (theap s)(t_next s := \<lparr>t_kind = k, t_vals = vals, t_parent = parent\<rparr>),
        t_next := Suc (t_next s)\<rparr>)"

text \<open>
  The synchronous part of \<open>loadModel\<close>. The flag says whether \<open>ok\<close> has been called
  already (the model is loaded from the same file, or the id is taken); otherwise the
  model is registered and its file is being fetched. The new model gets the transform
  chain Scale - Quaternion - Translate, innermost first.
\<close>

definition loadModel :: "nat \<Rightarrow> string \<Rightarrow> src \<Rightarrow> viewer \<Rightarrow> (bool \<times> viewer) outcome" where
  "loadModel n ident source s =
     (let isFilePath = (case source of Path x \<Rightarrow> True | _ \<Rightarrow> False) in
      if ident \<in> set (models s) \<and> isFilePath \<and> m_src (mods s ident) = Some source
      then Ok (True, s)
      else
        and_then (if ident \<in> set (models s) then destroy n (Str ident) s else Ok s) (\<lambda>s1.
          if is_key (components s1) ident then
            Ok (True, error (''Component with this ID already exists: '' @ ident) s1)
          else
            let (p0, s2) = new_node Translate [0, 0, 0] None s1;
                (p1, s3) = new_node Quaternion [0, 0, 0] (Some p0) s2;
                (p2, s4) = new_node Scale [1, 1, 1] (Some p1) s3
            in Ok (False,
                 s4\<lparr>mods := (mods s4)(ident :=
                        \<lparr>m_src = Some source, m_entities = None, m_center = [0, 0, 0],
                         m_aabb = [0, 0, 0, 0, 0, 0], m_transform = p2\<rparr>),
                     components :=
                       AList.update ident \<lparr>worldBoundary = None, pos = None\<rparr> (components s4),
                     models := kput ident (models s4),
                     modelSrcs := AList.update ident source (modelSrcs s4)\<rparr>)))"

text \<open>
  What the renderer has done when it fires \<open>loaded\<close> on a model: the entities parsed from
  the file exist under their ids, with their boundaries, and the model lists them. The
  entities, the centre and the box of the model are what the file holds.
\<close>

record parsed =
  p_entities :: "(string \<times> entity \<times> real list) list"
  p_center :: "real list"
  p_aabb :: "real list"

definition parse :: "string \<Rightarrow> parsed \<Rightarrow> viewer \<Rightarrow> viewer" where
  "parse ident gltf s =
     s\<lparr>ents := fold (\<lambda>(objectId, e, box) f. f(objectId := e)) (p_entities gltf) (ents s),
       mods := (mods s)(ident := (mods s ident)
         \<lparr>m_entities := (if p_entities gltf = [] then None
                          else Some (fold kput (map fst (p_entities gltf)) [])),
          m_center := p_center gltf, m_aabb := p_aabb gltf\<rparr>),
       components :=
         fold (\<lambda>(objectId, e, box). AList.update objectId \<lparr>worldBoundary = Some box, pos = None\<rparr>)
           (p_entities gltf)
           (AList.update ident \<lparr>worldBoundary = Some (p_aabb gltf), pos = None\<rparr> (components s))\<rparr>"

text \<open>The body of the loop of the \<open>loaded\<close> handler, and the handler.\<close>

definition register_object :: "string \<Rightarrow> string \<Rightarrow> viewer \<Rightarrow> viewer" where
  "register_object ident objectId s =
     (let type = type_of (ents s objectId);
          objectsOfType = (case map_of (types s) type of Some b \<Rightarrow> b | None \<Rightarrow> [])
      in s\<lparr>objects := kput objectId (objects s),
           objectModels := AList.update objectId ident (objectModels s),
           types := AList.update type (kput objectId objectsOfType) (types s)\<rparr>)"

definition on_loaded :: "string \<Rightarrow> viewer \<Rightarrow> viewer" where
  "on_loaded ident s = fold (register_object ident) (entities_of s ident) s"

text \<open>
  A load that completes: \<open>loadModel\<close>, then the renderer parses the file and the handler
  runs, before anything else happens.
\<close>

definition load :: "nat \<Rightarrow> string \<Rightarrow> src \<Rightarrow> parsed \<Rightarrow> viewer \<Rightarrow> viewer outcome" where
  "load n ident source gltf s =
     and_then (loadModel n ident source s) (\<lambda>(called, s1).
       Ok (if called then s1 else on_loaded ident (parse ident gltf s1)))"

subsection \<open>Transforms\<close>

text \<open>
  A component is an entity or a model; the two live in different tables of the renderer.
\<close>

datatype component = Object string | Model string

definition getComponent :: "viewer \<Rightarrow> string \<Rightarrow> component option" where
  "getComponent s ident =
     (if ident \<in> set (objects s) then Some (Object ident)
      else if ident \<in> set (models s) then Some (Model ident)
      else None)"

definition center_of :: "viewer \<Rightarrow> component \<Rightarrow> real list" where
  "center_of s c = (case c of Object x \<Rightarrow> e_center (ents s x) | Model x \<Rightarrow> m_center (mods s x))"

definition component_id :: "component \<Rightarrow> string" where
  "component_id c = (case c of Object x \<Rightarrow> x | Model x \<Rightarrow> x)"

definition set_transform :: "component \<Rightarrow> nat \<Rightarrow> viewer \<Rightarrow> viewer" where
  "set_transform c p s = (case c of
      Object x \<Rightarrow> s\<lparr>ents := (ents s)(x := (ents s x)\<lparr>e_transform := p\<rparr>)\<rparr>
    | Model x \<Rightarrow> s\<lparr>mods := (mods s)(x := (mods s x)\<lparr>m_transform := p\<rparr>)\<rparr>)"

definition subVec3 :: "real list \<Rightarrow> real list \<Rightarrow> real list" where
  "subVec3 u v = map2 (-) u v"

definition mulVec3Scalar :: "real list \<Rightarrow> real \<Rightarrow> real list" where
  "mulVec3Scalar v k = map (\<lambda>x. x * k) v"

text \<open>
  \<open>buildModelTransform\<close>: the constructors of the nested argument run innermost first.
  A Quaternion node holds the Euler angles its quaternion is computed from.
\<close>

definition buildModelTransform :: "component \<Rightarrow> viewer \<Rightarrow> viewer" where
  "buildModelTransform model s =
     (let offset = subVec3 (center_of s model) (scene_center s);
          negOffset = mulVec3Scalar offset (- 1);
          ident = component_id model;
          (p0, s0) = new_node Translate offset None s;
          (pt, s1) = new_node Translate [0, 0, 0] (Some p0) s0;
          (pr, s2) = new_node Quaternion [0, 0, 0] (Some pt) s1;
          (ps, s3) = new_node Scale [1, 1, 1] (Some pr) s2;
          (p4, s4) = new_node Translate negOffset (Some ps) s3;
          s5 = set_transform model p4
                 (s4\<lparr>translations := AList.update ident pt (translations s4),
                     rotations := AList.update ident pr (rotations s4),
                     scales := AList.update ident ps (scales s4)\<rparr>)
      in s5\<lparr>transformable := kput ident (transformable s5)\<rparr>)"

text \<open>
  \<open>buildObjectTransform\<close>: the loop multiplies the matrices of the chain the object was
  loaded with, up to the transform of its model; that product is the field \<open>e_matrix\<close>.
  The new chain ends in the node that is the transform of the model at this moment.
  An object without an entry in \<open>objectModels\<close> makes \<open>model.transform\<close> throw.
\<close>

definition buildObjectTransform :: "string \<Rightarrow> viewer \<Rightarrow> viewer outcome" where
  "buildObjectTransform objectId s =
     (case map_of (objectModels s) objectId of
        None \<Rightarrow> TypeError
      | Some model \<Rightarrow>
          let offset = subVec3 (e_center (ents s objectId)) (scene_center s);
              negOffset = mulVec3Scalar offset (- 1);
              modelTransform = m_transform (mods s model);
              matrix = e_matrix (ents s objectId);
              (p0, s0) = new_node Translate offset (Some modelTransform) s;
              (pt, s1) = new_node Translate [0, 0, 0] (Some p0) s0;
              (pr, s2) = new_node Quaternion [0, 0, 0] (Some pt) s1;
              (ps, s3) = new_node Scale [1, 1, 1] (Some pr) s2;
              (p4, s4) = new_node Translate negOffset (Some ps) s3;
              (p5, s5) = new_node Matrix matrix (Some p4) s4;
              s6 = set_transform (Object objectId) p5
                     (s5\<lparr>translations := AList.update objectId pt (translations s5),
                         rotations := AList.update objectId pr (rotations s5),
                         scales := AList.update objectId ps (scales s5)\<rparr>)
          in Ok (s6\<lparr>transformable := kput objectId (transformable s6)\<rparr>))"

definition getTransformableComponent ::
    "string \<Rightarrow> viewer \<Rightarrow> (component option \<times> viewer) outcome" where
  "getTransformableComponent ident s =
     (case getComponent s ident of
        None \<Rightarrow> Ok (None, s)
      | Some component \<Rightarrow>
          if ident \<in> set (transformable s) then Ok (Some component, s)
          else if ident \<in> set (models s) then Ok (Some component, buildModelTransform component s)
          else and_then (buildObjectTransform (component_id component) s)
                 (\<lambda>s1. Ok (Some component, s1)))"

definition set_vals :: "nat \<Rightarrow> real list \<Rightarrow> viewer \<Rightarrow> viewer" where
  "set_vals p xyz s = s\<lparr>theap := (theap s)(p := (theap s p)\<lparr>t_vals := xyz\<rparr>)\<rparr>"

text \<open>
  The string branch of \<open>setScale\<close>. After \<open>getTransformableComponent\<close> the source reads
  \<open>scales[id]\<close> again and writes through it; a missing entry makes the write throw.
\<close>

definition setScale_str :: "string \<Rightarrow> real list \<Rightarrow> viewer \<Rightarrow> viewer outcome" where
  "setScale_str ident xyz s =
     (case map_of (scales s) ident of
        Some scale \<Rightarrow> Ok (set_vals scale xyz s)
      | None \<Rightarrow>
          and_then (getTransformableComponent ident s) (\<lambda>(component, s1).
            if component = None then Ok (error (''Model or object not found: '' @ ident) s1)
            else (case map_of (scales s1) ident of
              None \<Rightarrow> TypeError
            | Some scale \<Rightarrow> Ok (set_vals scale xyz s1))))"

fun setScale :: "jsval \<Rightarrow> real list \<Rightarrow> viewer \<Rightarrow> viewer outcome" where
  "setScale (Str ident) xyz s = setScale_str ident xyz s"
| "setScale (Arr ids) xyz s = fold (\<lambda>x r. and_then r (setScale x xyz)) ids (Ok s)"
| "setScale (Num x) xyz s = Ok s"
| "setScale Undefined xyz s = TypeError"
| "setScale Null xyz s = TypeError"

text \<open>\<open>getScale\<close> returns the viewer itself (\<open>None\<close> here) when the id is unknown.\<close>

definition getScale :: "string \<Rightarrow> viewer \<Rightarrow> (real list option \<times> viewer) outcome" where
  "getScale ident s =
     (case map_of (scales s) ident of
        Some scale \<Rightarrow> Ok (Some (t_vals (theap s scale)), s)
      | None \<Rightarrow>
          and_then (getTransformableComponent ident s) (\<lambda>(component, s1).
            if component = None then Ok (None, error (''Model or object not found: '' @ ident) s1)
            else (case map_of (scales s1) ident of
              None \<Rightarrow> TypeError
            | Some scale \<Rightarrow> Ok (Some (t_vals (theap s1 scale)), s1))))"

definition setRotate_str :: "string \<Rightarrow> real list \<Rightarrow> viewer \<Rightarrow> viewer outcome" where
  "setRotate_str ident xyz s =
     and_then
       (case map_of (rotations s) ident of
          Some rotation \<Rightarrow> Ok (Some rotation, s)
        | None \<Rightarrow>
            and_then (getTransformableComponent ident s) (\<lambda>(component, s1).
              if component = None then Ok (None, error (''Model or object not found: '' @ ident) s1)
              else (case map_of (rotations s1) ident of
                None \<Rightarrow> TypeError
              | Some rotation \<Rightarrow> Ok (Some rotation, s1))))
       (\<lambda>(rotation, s2). case rotation of
          None \<Rightarrow> Ok s2
        | Some rotation \<Rightarrow>
            let s3 = set_vals rotation xyz s2
            in Ok (s3\<lparr>eulerAngles := AList.update ident xyz (eulerAngles s3)\<rparr>))"

fun setRotate :: "jsval \<Rightarrow> real list \<Rightarrow> viewer \<Rightarrow> viewer outcome" where
  "setRotate (Str ident) xyz s = setRotate_str ident xyz s"
| "setRotate (Arr ids) xyz s = fold (\<lambda>x r. and_then r (setRotate x xyz)) ids (Ok s)"
| "setRotate (Num x) xyz s = Ok s"
| "setRotate Undefined xyz s = TypeError"
| "setRotate Null xyz s = TypeError"

text \<open>\<open>getRotate\<close> returns 0 (\<open>None\<close> here) when the id is unknown.\<close>

definition getRotate :: "string \<Rightarrow> viewer \<Rightarrow> (real list option \<times> viewer) outcome" where
  "getRotate ident s =
     and_then (getTransformableComponent ident s) (\<lambda>(component, s1).
       if component = None then Ok (None, error (''Model or object not found: '' @ ident) s1)
       else Ok (Some (case map_of (eulerAngles s1) ident of
                        Some angles \<Rightarrow> angles | None \<Rightarrow> [0, 0, 0]), s1))"

definition setTranslate_str :: "string \<Rightarrow> real list \<Rightarrow> viewer \<Rightarrow> viewer outcome" where
  "setTranslate_str ident xyz s =
     (case map_of (translations s) ident of
        Some translation \<Rightarrow> Ok (set_vals translation xyz s)
      | None \<Rightarrow>
          and_then (getTransformableComponent ident s) (\<lambda>(component, s1).
            if component = None then Ok (error (''Model or object not found: '' @ ident) s1)
            else (case map_of (translations s1) ident of
              None \<Rightarrow> TypeError
            | Some translation \<Rightarrow> Ok (set_vals translation xyz s1))))"

fun setTranslate :: "jsval \<Rightarrow> real list \<Rightarrow> viewer \<Rightarrow> viewer outcome" where
  "setTranslate (Str ident) xyz s = setTranslate_str ident xyz s"
| "setTranslate (Arr ids) xyz s = fold (\<lambda>x r. and_then r (setTranslate x xyz)) ids (Ok s)"
| "setTranslate (Num x) xyz s = Ok s"
| "setTranslate Undefined xyz s = TypeError"
| "setTranslate Null xyz s = TypeError"

text \<open>\<open>getTranslate\<close> returns 0 (\<open>None\<close> here) when the id is unknown.\<close>

definition getTranslate :: "string \<Rightarrow> viewer \<Rightarrow> (real list option \<times> viewer) outcome" where
  "getTranslate ident s =
     (case map_of (translations s) ident of
        Some translation \<Rightarrow> Ok (Some (t_vals (theap s translation)), s)
      | None \<Rightarrow>
          and_then (getTransformableComponent ident s) (\<lambda>(component, s1).
            if component = None then Ok (None, error (''Model or object not found: '' @ ident) s1)
            else (case map_of (translations s1) ident of
              None \<Rightarrow> TypeError
            | Some translation \<Rightarrow> Ok (Some (t_vals (theap s1 translation)), s1))))"

text \<open>
  The nodes from a transform up to its root. The renderer multiplies their matrices to
  place a component; the scale such a chain applies is the component-wise product of its
  Scale nodes. Parents are allocated before their children, so the number of allocated
  nodes bounds the walk.
\<close>

fun chain :: "nat \<Rightarrow> (nat \<Rightarrow> tnode) \<Rightarrow> nat \<Rightarrow> tnode list" where
  "chain 0 h p = []"
| "chain (Suc k) h p = h p # (case t_parent (h p) of None \<Rightarrow> [] | Some q \<Rightarrow> chain k h q)"

definition transform_chain :: "viewer \<Rightarrow> nat \<Rightarrow> tnode list" where
  "transform_chain s p = chain (t_next s) (theap s) p"

definition mulVec3 :: "real list \<Rightarrow> real list \<Rightarrow> real list" where
  "mulVec3 u v = map2 (*) u v"

definition chain_scale :: "tnode list \<Rightarrow> real list" where
  "chain_scale ns = foldr (\<lambda>node acc. if t_kind node = Scale then mulVec3 (t_vals node) acc else acc)
     ns [1, 1, 1]"

definition effective_scale :: "viewer \<Rightarrow> string \<Rightarrow> real list" where
  "effective_scale s objectId = chain_scale (transform_chain s (e_transform (ents s objectId)))"

subsection \<open>Camera and projection\<close>

definition setEyeLookUp ::
    "real list option \<Rightarrow> real list option \<Rightarrow> real list option \<Rightarrow> viewer \<Rightarrow> viewer" where
  "setEyeLookUp e l u s =
     s\<lparr>cam := (cam s)\<lparr>eye := (case e of Some v \<Rightarrow> v | None \<Rightarrow> [0, 0, 10]),
                        look := (case l of Some v \<Rightarrow> v | None \<Rightarrow> [0, 0, 0]),
                        up := (case u of Some v \<Rightarrow> v | None \<Rightarrow> [0, 1, 0])\<rparr>\<rparr>"

definition getEye :: "viewer \<Rightarrow> real list" where
  "getEye s = eye (cam s)"

definition getLook :: "viewer \<Rightarrow> real list" where
  "getLook s = look (cam s)"

definition getUp :: "viewer \<Rightarrow> real list" where
  "getUp s = up (cam s)"

definition setProjection :: "string \<Rightarrow> viewer \<Rightarrow> viewer" where
  "setProjection type s =
     (if projectionType (cam s) = type then s
      else if type \<noteq> ''perspective'' \<and> type \<noteq> ''orthographic''
      then error (''Unsupported camera projection type: '' @ type) s
      else s\<lparr>cam := (cam s)\<lparr>projectionType := type\<rparr>\<rparr>)"

subsection \<open>Bookmarks\<close>

record model_state =
  ms_id :: string
  ms_src :: src
  ms_translate :: "real list option"
  ms_scale :: "real list option"
  ms_rotate :: "real list option"

record object_state =
  os_id :: string
  os_translate :: "real list option"
  os_scale :: "real list option"
  os_rotate :: "real list option"
  os_visible :: "bool option"
  os_opacity :: "real option"
  os_outlined :: "bool option"
  os_clippable :: "bool option"
  os_pickable :: "bool option"

record bookmark =
  b_models :: "model_state list option"
  b_objects :: "object_state list option"
  b_annotations :: "(string \<times> annotation_cfg) list option"
  b_clips :: "(string \<times> clip_cfg) list option"
  b_lights :: "(string \<times> light) list option"
  b_eye :: "real list option"
  b_look :: "real list option"
  b_up :: "real list option"
  b_gimbalLockY :: "bool option"
  b_viewFitFOV :: "real option"
  b_viewFitDuration :: "real option"
  b_projection :: "string option"
  b_perspectiveNear :: "real option"
  b_perspectiveFar :: "real option"
  b_perspectiveFOV :: "real option"
  b_orthoNear :: "real option"
  b_orthoFar :: "real option"
  b_orthoScale :: "real option"
  b_outlineThickness :: "real option"
  b_outlineColor :: "real list option"

text \<open>
  The helpers of \<open>getBookmark\<close>. \<open>vecToArray\<close> is taken to copy the vector. The tests on
  the components are those of the source, which reads \<open>xyz[1]\<close> twice in \<open>getTranslate\<close>
  and \<open>getScale\<close> and never \<open>xyz[2]\<close>. An index beyond the vector reads \<open>undefined\<close>,
  which differs from every number.
\<close>

definition differs :: "real list \<Rightarrow> nat \<Rightarrow> real \<Rightarrow> bool" where
  "differs xyz i d = (if i < length xyz then xyz ! i \<noteq> d else True)"

definition bm_getTranslate :: "viewer \<Rightarrow> string \<Rightarrow> real list option" where
  "bm_getTranslate s ident =
     (case map_of (translations s) ident of
        None \<Rightarrow> None
      | Some translation \<Rightarrow>
          let xyz = t_vals (theap s translation) in
          if differs xyz 0 0 \<or> differs xyz 1 0 \<or> differs xyz 1 0 then Some xyz else None)"

definition bm_getScale :: "viewer \<Rightarrow> string \<Rightarrow> real list option" where
  "bm_getScale s ident =
     (case map_of (scales s) ident of
        None \<Rightarrow> None
      | Some scale \<Rightarrow>
          let xyz = t_vals (theap s scale) in
          if differs xyz 0 1 \<or> differs xyz 1 1 \<or> differs xyz 1 1 then Some xyz else None)"

definition bm_getRotate :: "viewer \<Rightarrow> string \<Rightarrow> real list option" where
  "bm_getRotate s ident =
     (case map_of (eulerAngles s) ident of
        None \<Rightarrow> None
      | Some xyz \<Rightarrow>
          if differs xyz 0 0 \<or> differs xyz 1 0 \<or> differs xyz 2 0 then Some xyz else None)"

definition bm_getSrc :: "viewer \<Rightarrow> string \<Rightarrow> src" where
  "bm_getSrc s ident = (case map_of (modelSrcs s) ident of Some x \<Rightarrow> x | None \<Rightarrow> NoSrc)"

definition bm_model :: "viewer \<Rightarrow> string \<Rightarrow> model_state" where
  "bm_model s ident = \<lparr>ms_id = ident, ms_src = bm_getSrc s ident,
     ms_translate = bm_getTranslate s ident, ms_scale = bm_getScale s ident,
     ms_rotate = bm_getRotate s ident\<rparr>"

text \<open>An object is listed when at least one of its fields is set.\<close>

definition bm_object :: "viewer \<Rightarrow> string \<Rightarrow> object_state option" where
  "bm_object s ident =
     (let object = ents s ident;
          objectState = \<lparr>os_id = ident,
            os_translate = bm_getTranslate s ident,
            os_scale = bm_getScale s ident,
            os_rotate = bm_getRotate s ident,
            os_visible = (if \<not> e_visible object then Some False else None),
            os_opacity = (if alphaMode object = ''blend'' \<and> alpha object < 1
                          then Some (alpha object) else None),
            os_outlined = (if e_outlined object then Some True else None),
            os_clippable = (if \<not> e_clippable object then Some False else None),
            os_pickable = (if \<not> e_pickable object then Some False else None)\<rparr>
      in if os_translate objectState = None \<and> os_scale objectState = None
            \<and> os_rotate objectState = None \<and> os_visible objectState = None
            \<and> os_opacity objectState = None \<and> os_outlined objectState = None
            \<and> os_clippable objectState = None \<and> os_pickable objectState = None
         then None else Some objectState)"

definition nonempty :: "string \<Rightarrow> string option" where
  "nonempty x = (if x = [] then None else Some x)"

definition unless_true :: "bool \<Rightarrow> bool option" where
  "unless_true b = (if b then None else Some b)"

definition bm_annotation :: "string \<times> annotation \<Rightarrow> string \<times> annotation_cfg" where
  "bm_annotation = (\<lambda>(ident, annotation). (ident,
     \<lparr>ac_object = a_entity annotation, ac_primIndex = Some (a_primIndex annotation),
      ac_bary = a_bary annotation, ac_eye = a_eye annotation, ac_look = a_look annotation,
      ac_up = a_up annotation, ac_occludable = unless_true (a_occludable annotation),
      ac_glyph = nonempty (a_glyph annotation), ac_title = nonempty (a_title annotation),
      ac_desc = nonempty (a_desc annotation), ac_pinShown = unless_true (a_pinShown annotation),
      ac_labelShown = unless_true (a_labelShown annotation)\<rparr>))"

text \<open>\<open>shown\<close> is set when the helper of the clip plane is not visible, as in the source.\<close>

definition bm_clip :: "viewer \<Rightarrow> string \<times> clip \<Rightarrow> string \<times> clip_cfg" where
  "bm_clip s = (\<lambda>(ident, clip). (ident,
     \<lparr>cc_pos = c_pos clip, cc_dir = c_dir clip, cc_active = unless_true (c_active clip),
      cc_shown = (case map_of (clipHelpers s) ident of Some v \<Rightarrow> \<not> v | None \<Rightarrow> False)\<rparr>))"

definition some_if_nonempty :: "'a list \<Rightarrow> 'a list option" where
  "some_if_nonempty xs = (if xs = [] then None else Some xs)"

definition unless :: "real \<Rightarrow> real \<Rightarrow> real option" where
  "unless d x = (if x \<noteq> d then Some x else None)"

definition getBookmark :: "viewer \<Rightarrow> bookmark" where
  "getBookmark s =
     \<lparr>b_models = some_if_nonempty (map (bm_model s) (models s)),
      b_objects = some_if_nonempty (List.map_filter (bm_object s) (objects s)),
      b_annotations = some_if_nonempty (map bm_annotation (annotations s)),
      b_clips = some_if_nonempty (map (bm_clip s) (clips s)),
      b_lights = some_if_nonempty (lights s),
      b_eye = Some (eye (cam s)),
      b_look = Some (look (cam s)),
      b_up = Some (up (cam s)),
      b_gimbalLockY = unless_true (gimbalLockY (cam s)),
      b_viewFitFOV = unless 45 (viewFitFOV (cam s)),
      b_viewFitDuration = unless 0.5 (viewFitDuration (cam s)),
      b_projection = (if projectionType (cam s) \<noteq> ''perspective''
                      then Some (projectionType (cam s)) else None),
      b_perspectiveNear = unless 0.1 (perspectiveNear (cam s)),
      b_perspectiveFar = unless 5000 (perspectiveFar (cam s)),
      b_perspectiveFOV = unless 60 (perspectiveFOV (cam s)),
      b_orthoNear = unless 0.1 (orthoNear (cam s)),
      b_orthoFar = unless 5000 (orthoFar (cam s)),
      b_orthoScale = unless 1 (orthoScale (cam s)),
      b_outlineThickness = unless 15 (outlineThickness (cam s)),
      b_outlineColor =
        (let c = outlineColor (cam s) in
         if differs c 0 1 \<or> differs c 1 1 \<or> differs c 2 0 then Some c else None)\<rparr>"

text \<open>
  \<open>loadModels\<close>: one model after the other, each after the load of the one before has
  completed. \<open>files\<close> says what each source holds.
\<close>

definition apply_opt ::
    "('a \<Rightarrow> viewer \<Rightarrow> viewer outcome) \<Rightarrow> 'a option \<Rightarrow> viewer \<Rightarrow> viewer outcome" where
  "apply_opt f x s = (case x of None \<Rightarrow> Ok s | Some v \<Rightarrow> f v s)"

fun loadModels :: "nat \<Rightarrow> (src \<Rightarrow> parsed) \<Rightarrow> model_state list \<Rightarrow> viewer \<Rightarrow> viewer outcome" where
  "loadModels n files [] s = Ok s"
| "loadModels n files (modelData # rest) s =
     and_then (load n (ms_id modelData) (ms_src modelData) (files (ms_src modelData)) s) (\<lambda>s1.
     and_then (apply_opt (setTranslate (Str (ms_id modelData))) (ms_translate modelData) s1) (\<lambda>s2.
     and_then (apply_opt (setScale (Str (ms_id modelData))) (ms_scale modelData) s2) (\<lambda>s3.
     and_then (apply_opt (setRotate (Str (ms_id modelData))) (ms_rotate modelData) s3) (\<lambda>s4.
     loadModels n files rest s4))))"

text \<open>
  The body of the loop over \<open>bookmark.objects\<close>. The public \<open>setClippable\<close> and
  \<open>setPickable\<close> take one argument and pass \<open>true\<close>; the second argument given here is
  dropped.
\<close>

definition restore_object :: "nat \<Rightarrow> object_state \<Rightarrow> viewer \<Rightarrow> viewer outcome" where
  "restore_object n objectState s =
     (let ident = Str (os_id objectState) in
      and_then (apply_opt (setTranslate ident) (os_translate objectState) s) (\<lambda>s1.
      and_then (apply_opt (setScale ident) (os_scale objectState) s1) (\<lambda>s2.
      and_then (apply_opt (setRotate ident) (os_rotate objectState) s2) (\<lambda>s3.
      and_then (apply_opt (\<lambda>x. setOpacity n ident (Some x)) (os_opacity objectState) s3) (\<lambda>s4.
      and_then (if os_outlined objectState = Some True then setOutline n ident True s4 else Ok s4) (\<lambda>s5.
      and_then (apply_opt (\<lambda>x. setClippable n ident True) (os_clippable objectState) s5) (\<lambda>s6.
      apply_opt (\<lambda>x. setPickable n ident True) (os_pickable objectState) s6)))))))"

definition number_or :: "real \<Rightarrow> real option \<Rightarrow> real" where
  "number_or d x = (case x of None \<Rightarrow> d | Some v \<Rightarrow> v)"

definition truthy_or :: "real \<Rightarrow> real option \<Rightarrow> real" where
  "truthy_or d x = (case x of None \<Rightarrow> d | Some v \<Rightarrow> if v = 0 then d else v)"

definition restore_settings :: "bookmark \<Rightarrow> viewer \<Rightarrow> viewer" where
  "restore_settings b s =
     (let s1 = setEyeLookUp (b_eye b) (b_look b) (b_up b) s;
          s2 = s1\<lparr>cam := (cam s1)\<lparr>gimbalLockY := (b_gimbalLockY b \<noteq> Some False)\<rparr>\<rparr>;
          s3 = setProjection
                 (case b_projection b of None \<Rightarrow> ''perspective''
                  | Some x \<Rightarrow> if x = [] then ''perspective'' else x) s2
      in s3\<lparr>cam := (cam s3)\<lparr>
           fitFOV := truthy_or 45 (b_viewFitFOV b),
           viewFitDuration := number_or 0.5 (b_viewFitDuration b),
           perspectiveNear := number_or 0.1 (b_perspectiveNear b),
           perspectiveFar := number_or 5000 (b_perspectiveFar b),
           perspectiveFOV := truthy_or 60 (b_perspectiveFOV b),
           orthoNear := number_or 0.1 (b_orthoNear b),
           orthoFar := number_or 5000 (b_orthoFar b),
           orthoScale := number_or 1 (b_orthoScale b),
           outlineThickness := number_or 15 (b_outlineThickness b),
           outlineColor := (case b_outlineColor b of None \<Rightarrow> [1, 1, 0] | Some c \<Rightarrow> c)\<rparr>\<rparr>)"

text \<open>
  \<open>setBookmark\<close>, with every load completing. The result counts the calls of \<open>ok\<close>;
  \<open>ok\<close> says whether the caller passed a callback.
\<close>

definition invisible_ids :: "object_state list \<Rightarrow> string list" where
  "invisible_ids objectStates = map os_id (filter (\<lambda>x. os_visible x = Some False) objectStates)"

definition setBookmark ::
    "nat \<Rightarrow> (src \<Rightarrow> parsed) \<Rightarrow> bookmark \<Rightarrow> bool \<Rightarrow> viewer \<Rightarrow> (nat \<times> viewer) outcome" where
  "setBookmark n files b ok s =
     and_then (clear n s) (\<lambda>s0.
       let modelsData = (case b_models b of None \<Rightarrow> [] | Some xs \<Rightarrow> xs) in
       if modelsData = [] then
         and_then (defaultLights n s0) (\<lambda>s1. Ok (if ok then 1 else 0, s1))
       else
         and_then (loadModels n files modelsData s0) (\<lambda>s1.
         let objectStates = (case b_objects b of None \<Rightarrow> [] | Some xs \<Rightarrow> xs) in
         and_then (fold (\<lambda>x r. and_then r (restore_object n x)) objectStates (Ok s1)) (\<lambda>s2.
         and_then (fold (\<lambda>(ident, cfg) r. and_then r (createClip n ident (Some cfg)))
                     (case b_clips b of None \<Rightarrow> [] | Some xs \<Rightarrow> xs) (Ok s2)) (\<lambda>s3.
         let s4 = fold (\<lambda>(ident, cfg). createAnnotation ident (Some cfg))
                    (case b_annotations b of None \<Rightarrow> [] | Some xs \<Rightarrow> xs) s3 in
         and_then (if b_lights b = None then defaultLights n s4 else Ok s4) (\<lambda>s5.
         and_then (if invisible_ids objectStates = [] then Ok s5
                   else hide n (Arr (map Str (invisible_ids objectStates))) s5) (\<lambda>s6.
         Ok (if ok then 1 else 0, restore_settings b s6)))))))"

subsection \<open>getAABB\<close>

text \<open>
  What \<open>getAABB\<close> returns: a box, \<open>null\<close>, or the argument itself. Comparing
  \<open>undefined\<close> with a number is false, so an index beyond a vector changes nothing.
\<close>

datatype aabb_result = Box "real list" | NullBox | Same jsval

definition lower :: "real list \<Rightarrow> nat \<Rightarrow> real \<Rightarrow> real" where
  "lower v i m = (if i < length v \<and> v ! i < m then v ! i else m)"

definition upper :: "real list \<Rightarrow> nat \<Rightarrow> nat \<Rightarrow> real \<Rightarrow> real" where
  "upper v i j m = (if i < length v \<and> j < length v \<and> v ! i > m then v ! j else m)"

record extent =
  xmin :: real
  ymin :: real
  zmin :: real
  xmax :: real
  ymax :: real
  zmax :: real
  valid :: bool

definition add_aabb :: "real list \<Rightarrow> extent \<Rightarrow> extent" where
  "add_aabb aabb e = e\<lparr>xmin := lower aabb 0 (xmin e), ymin := lower aabb 1 (ymin e),
     zmin := lower aabb 2 (zmin e), xmax := upper aabb 3 3 (xmax e),
     ymax := upper aabb 4 4 (ymax e), zmax := upper aabb 5 5 (zmax e)\<rparr>"

text \<open>The source compares \<open>pos[3]\<close>, \<open>pos[4]\<close>, \<open>pos[5]\<close> with the maxima.\<close>

definition add_pos :: "real list \<Rightarrow> extent \<Rightarrow> extent" where
  "add_pos p e = e\<lparr>xmin := lower p 0 (xmin e), ymin := lower p 1 (ymin e),
     zmin := lower p 2 (zmin e), xmax := upper p 3 0 (xmax e),
     ymax := upper p 4 1 (ymax e), zmax := upper p 5 2 (zmax e)\<rparr>"

text \<open>
  \<open>scene.components[id]\<close>, or else \<open>models[id]\<close>: a model always has a boundary.
\<close>

definition component_or_model :: "viewer \<Rightarrow> string \<Rightarrow> comp option" where
  "component_or_model s ident =
     (case map_of (components s) ident of
        Some c \<Rightarrow> Some c
      | None \<Rightarrow> if ident \<in> set (models s)
                then Some \<lparr>worldBoundary = Some (m_aabb (mods s ident)), pos = None\<rparr>
                else None)"

text \<open>The branch for a list of one id; \<open>rec\<close> is the recursive call.\<close>

definition aabb_one ::
    "(jsval \<Rightarrow> viewer \<Rightarrow> (aabb_result \<times> viewer) outcome) \<Rightarrow> string \<Rightarrow> viewer
      \<Rightarrow> (aabb_result \<times> viewer) outcome" where
  "aabb_one rec ident s =
     (case map_of (components s) ident of
        Some component \<Rightarrow>
          (case worldBoundary component of
             Some aabb \<Rightarrow> Ok (Box aabb, s)
           | None \<Rightarrow>
               Ok (NullBox,
                   error ''// TODO: Calculate AABB for a single light source or annotation'' s))
      | None \<Rightarrow>
          (case map_of (types s) ident of
             Some objectsOfType \<Rightarrow> rec (Arr (map Str objectsOfType)) s
           | None \<Rightarrow> Ok (NullBox, s)))"

text \<open>
  One round of the loop over many ids. An entry that is not a string is taken to name
  nothing. \<open>valid\<close> is set at the end of every round that does not \<open>continue\<close>.
\<close>

definition aabb_round ::
    "(jsval \<Rightarrow> viewer \<Rightarrow> (aabb_result \<times> viewer) outcome) \<Rightarrow> jsval \<Rightarrow> extent \<times> viewer
      \<Rightarrow> (extent \<times> viewer) outcome" where
  "aabb_round rec entry = (\<lambda>(e, s).
     case entry of
       Str ident \<Rightarrow>
         (case component_or_model s ident of
            Some component \<Rightarrow>
              (case worldBoundary component of
                 Some aabb \<Rightarrow> Ok ((add_aabb aabb e)\<lparr>valid := True\<rparr>, s)
               | None \<Rightarrow>
                   (case pos component of
                      Some p \<Rightarrow> Ok ((add_pos p e)\<lparr>valid := True\<rparr>, s)
                    | None \<Rightarrow> Ok (e, s)))
          | None \<Rightarrow>
              (case map_of (types s) ident of
                 Some objectsOfType \<Rightarrow>
                   if objectsOfType = [] then Ok (e, s)
                   else and_then (rec (Arr (map Str objectsOfType)) s) (\<lambda>(r, s1).
                     case r of
                       Box aabb \<Rightarrow> Ok ((add_aabb aabb e)\<lparr>valid := True\<rparr>, s1)
                     | _ \<Rightarrow> Ok (e\<lparr>valid := True\<rparr>, s1))
               | None \<Rightarrow> Ok (e, s)))
     | _ \<Rightarrow> Ok (e, s))"

definition aabb_many ::
    "(jsval \<Rightarrow> viewer \<Rightarrow> (aabb_result \<times> viewer) outcome) \<Rightarrow> jsval list \<Rightarrow> viewer
      \<Rightarrow> (aabb_result \<times> viewer) outcome" where
  "aabb_many rec target s =
     and_then
       (fold (\<lambda>x r. and_then r (aabb_round rec x)) target
          (Ok (\<lparr>xmin = 100000, ymin = 100000, zmin = 100000,
                xmax = - 100000, ymax = - 100000, zmax = - 100000, valid = False\<rparr>, s)))
       (\<lambda>(e, s1).
          if valid e then Ok (Box [xmin e, ymin e, zmin e, xmax e, ymax e, zmax e], s1)
          else Ok (Box (scene_aabb s1), s1))"

definition aabb_list ::
    "(jsval \<Rightarrow> viewer \<Rightarrow> (aabb_result \<times> viewer) outcome) \<Rightarrow> jsval list \<Rightarrow> viewer
      \<Rightarrow> (aabb_result \<times> viewer) outcome" where
  "aabb_list rec target s =
     (case target of
        [] \<Rightarrow> Ok (Box (scene_aabb s), s)
      | [Str ident] \<Rightarrow> aabb_one rec ident s
      | _ \<Rightarrow> aabb_many rec target s)"

fun getAABB :: "nat \<Rightarrow> jsval \<Rightarrow> viewer \<Rightarrow> (aabb_result \<times> viewer) outcome" where
  "getAABB 0 target s = StackOverflow"
| "getAABB (Suc n) Undefined s = Ok (Box (scene_aabb s), s)"
| "getAABB (Suc n) Null s = TypeError"
| "getAABB (Suc n) (Num x) s = Ok (Box (scene_aabb s), s)"
| "getAABB (Suc n) (Str ident) s = aabb_list (\<lambda>t s'. getAABB n t s') [Str ident] s"
| "getAABB (Suc n) (Arr xs) s =
     (case xs of
        Str ident # rest \<Rightarrow> aabb_list (\<lambda>t s'. getAABB n t s') xs s
      | _ \<Rightarrow> Ok (Same (Arr xs), s))"

subsection \<open>Notions used in the properties\<close>

text \<open>An id denotes an annotation, a light, a clip plane or a model.\<close>

definition denotes :: "viewer \<Rightarrow> string \<Rightarrow> bool" where
  "denotes s x = (is_key (annotations s) x \<or> is_key (lights s) x \<or> is_key (clips s) x
     \<or> x \<in> set (models s))"

subsection \<open>Example scenes\<close>

definition part :: "string \<Rightarrow> string \<times> entity \<times> real list" where
  "part ident = (ident, blank_entity\<lparr>diffuse := Some [1, 1, 1]\<rparr>, [0, 0, 0, 1, 1, 1])"

definition saw_file :: parsed where
  "saw_file = \<lparr>p_entities = [part ''saw#1'', part ''saw#2''], p_center = [1, 1, 1],
     p_aabb = [0, 0, 0, 2, 2, 2]\<rparr>"

definition gear_file :: parsed where
  "gear_file = \<lparr>p_entities = [part ''gear#1''], p_center = [0, 0, 0],
     p_aabb = [0, 0, 0, 1, 1, 1]\<rparr>"

definition files :: "src \<Rightarrow> parsed" where
  "files source =
     (if source = Path ''saw.gltf'' then saw_file
      else if source = Path ''gear.gltf'' then gear_file
      else \<lparr>p_entities = [], p_center = [0, 0, 0], p_aabb = [0, 0, 0, 0, 0, 0]\<rparr>)"

text \<open>A viewer with the model \<open>saw\<close> loaded, and one with \<open>gear\<close> loaded as well.\<close>

definition saw_scene :: viewer where
  "saw_scene = state_of (and_then (Viewer 3) (load 3 ''saw'' (Path ''saw.gltf'') saw_file))"

definition two_models :: viewer where
  "two_models = state_of (load 3 ''gear'' (Path ''gear.gltf'') gear_file saw_scene)"

text \<open>A new viewer with two more lights, called \<open>a\<close> and \<open>b\<close>.\<close>

definition two_lights :: viewer where
  "two_lights = state_of (and_then (Viewer 3) (\<lambda>s.
     and_then (createLight 3 ''a'' (Some (dir_light [0, 0, - 1] [1, 1, 1])) s)
       (createLight 3 ''b'' (Some (dir_light [0, 0, - 1] [1, 1, 1])))))"

text \<open>
  The objects a model owns, in the order of the registry \<open>objects\<close>; and a list without
  its repetitions, each element staying where it first occurs.
\<close>

definition owned_by :: "viewer \<Rightarrow> string \<Rightarrow> string list" where
  "owned_by s m = filter (\<lambda>x. map_of (objectModels s) x = Some m) (objects s)"

fun first_occurrences :: "'a list \<Rightarrow> 'a list" where
  "first_occurrences [] = []"
| "first_occurrences (x # xs) = x # filter (\<lambda>y. y \<noteq> x) (first_occurrences xs)"

text \<open>
  The registry is consistent for a model when the entities the renderer lists for it are
  the objects registered to it, in the order of registration.
\<close>

definition lists_its_objects :: "viewer \<Rightarrow> string \<Rightarrow> bool" where
  "lists_its_objects s m = (distinct (objects s) \<and> entities_of s m = owned_by s m)"

text \<open>A model with two objects, one of which has been given the type \<open>saw\<close>.\<close>

definition typed_scene :: viewer where
  "typed_scene = setType_str ''gear#1'' (Some ''saw'') two_models"

text \<open>An object is registered in the bucket of the type it carries.\<close>

definition in_own_bucket :: "viewer \<Rightarrow> string \<Rightarrow> bool" where
  "in_own_bucket s x = (case map_of (types s) (type_of (ents s x)) of
      Some b \<Rightarrow> x \<in> set b | None \<Rightarrow> False)"

text \<open>An object is in no bucket other than that of the type it carries.\<close>

definition only_in_own_bucket :: "viewer \<Rightarrow> string \<Rightarrow> bool" where
  "only_in_own_bucket s x =
     (\<forall>t b. map_of (types s) t = Some b \<longrightarrow> x \<in> set b \<longrightarrow> t = type_of (ents s x))"

definition in_some_bucket :: "viewer \<Rightarrow> string \<Rightarrow> bool" where
  "in_some_bucket s x = (\<exists>t b. map_of (types s) t = Some b \<and> x \<in> set b)"

text \<open>
  The saw scene after \<open>setType("saw#1", "cover")\<close> and the creation of a light that is
  called \<open>cover\<close> as well.
\<close>

definition cover_scene :: viewer where
  "cover_scene = state_of (createLight 3 ''cover'' (Some (dir_light [0, 0, - 1] [1, 1, 1]))
     (setType_str ''saw#1'' (Some ''cover'') saw_scene))"

text \<open>
  A lookup \<open>dict[id]\<close> on a plain object also finds the members of \<open>Object.prototype\<close>,
  and \<open>Object.keys\<close> lists the keys that are array indices first, in numeric order. The
  definitions above look up own keys and keep the order of insertion; the properties say
  where they need an id that is neither.
\<close>

definition prototype_members :: "string list" where
  "prototype_members = [''constructor'', ''__proto__'', ''hasOwnProperty'', ''isPrototypeOf'',
     ''propertyIsEnumerable'', ''toLocaleString'', ''toString'', ''valueOf'',
     ''__defineGetter__'', ''__defineSetter__'', ''__lookupGetter__'', ''__lookupSetter__'']"

definition array_index :: "string \<Rightarrow> bool" where
  "array_index x = (x \<noteq> [] \<and> list_all (\<lambda>c. c \<in> set ''0123456789'') x
     \<and> (x = ''0'' \<or> hd x \<noteq> CHR ''0''))"

text \<open>
  An id that can be inserted as a key: the listing keeps it where it was inserted, and a
  lookup of it finds the entry inserted.
\<close>

definition plain_id :: "string \<Rightarrow> bool" where
  "plain_id x = (x \<notin> set prototype_members \<and> \<not> array_index x)"

text \<open>An argument none of whose strings is the name of a member of \<open>Object.prototype\<close>.\<close>

fun ordinary :: "jsval \<Rightarrow> bool" where
  "ordinary (Str x) = (x \<notin> set prototype_members)"
| "ordinary (Arr xs) = list_all ordinary xs"
| "ordinary v = True"

text \<open>
  Every annotation that is pinned to an object has an entry for that object in
  \<open>objectAnnotations\<close>, as \<open>createAnnotation\<close> leaves it.
\<close>

definition annotations_ok :: "viewer \<Rightarrow> bool" where
  "annotations_ok s = (\<forall>k a e. map_of (annotations s) k = Some a \<longrightarrow> a_entity a = Some e
     \<longrightarrow> is_key (objectAnnotations s) e)"

text \<open>
  The registry of objects is consistent: no object is registered twice, every object
  belongs to a loaded model, and the entities the renderer lists for a loaded model are
  the objects registered to it, in the order of registration.
\<close>

definition registry_ok :: "viewer \<Rightarrow> bool" where
  "registry_ok s = (distinct (objects s)
     \<and> (\<forall>x \<in> set (objects s). \<exists>m \<in> set (models s). map_of (objectModels s) x = Some m)
     \<and> (\<forall>m \<in> set (models s). entities_of s m = owned_by s m))"

text \<open>
  Two states with the same objects, types, models, annotations and clip planes, and with
  lights of the same ids.
\<close>

definition same_registry :: "viewer \<Rightarrow> viewer \<Rightarrow> bool" where
  "same_registry s s' = (annotations s' = annotations s
     \<and> objectAnnotations s' = objectAnnotations s \<and> keys (lights s') = keys (lights s)
     \<and> clips s' = clips s \<and> models s' = models s \<and> objects s' = objects s
     \<and> objectModels s' = objectModels s \<and> mods s' = mods s \<and> types s' = types s)"

text \<open>
  The states a viewer gets into from its construction by loading a model under a new id
  (the renderer gives the entities of the file ids that differ from one another and from
  those of the objects there are), destroying, setting types, creating lights and clip
  planes, and setting visibility, opacity, colour, clippability, pickability and outline.
\<close>

inductive built :: "viewer \<Rightarrow> bool" where
  Viewer: "Viewer n = Ok s \<Longrightarrow> built s"
| load: "built s \<Longrightarrow> plain_id ident \<Longrightarrow> ident \<notin> set (models s)
    \<Longrightarrow> distinct (map fst (p_entities gltf))
    \<Longrightarrow> \<forall>x \<in> set (map fst (p_entities gltf)). plain_id x \<and> x \<notin> set (objects s)
    \<Longrightarrow> load n ident source gltf s = Ok s' \<Longrightarrow> built s'"
| destroy: "built s \<Longrightarrow> ordinary v \<Longrightarrow> destroy n v s = Ok s' \<Longrightarrow> built s'"
| setType: "built s \<Longrightarrow> ordinary v \<Longrightarrow> type_or_default ty \<notin> set prototype_members
    \<Longrightarrow> setType v ty s = Ok s' \<Longrightarrow> built s'"
| createLight: "built s \<Longrightarrow> plain_id ident \<Longrightarrow> createLight n ident cfg s = Ok s'
    \<Longrightarrow> built s'"
| createClip: "built s \<Longrightarrow> plain_id ident \<Longrightarrow> createClip n ident cfg s = Ok s'
    \<Longrightarrow> built s'"
| setVisible: "built s \<Longrightarrow> ordinary v \<Longrightarrow> setVisible n v b s = Ok s' \<Longrightarrow> built s'"
| setOpacity: "built s \<Longrightarrow> ordinary v \<Longrightarrow> setOpacity n v a s = Ok s' \<Longrightarrow> built s'"
| setColor: "built s \<Longrightarrow> ordinary v \<Longrightarrow> setColor n v c s = Ok s' \<Longrightarrow> built s'"
| setClippable: "built s \<Longrightarrow> ordinary v \<Longrightarrow> setClippable n v b s = Ok s' \<Longrightarrow> built s'"
| setPickable: "built s \<Longrightarrow> ordinary v \<Longrightarrow> setPickable n v b s = Ok s' \<Longrightarrow> built s'"
| setOutline: "built s \<Longrightarrow> ordinary v \<Longrightarrow> setOutline n v b s = Ok s' \<Longrightarrow> built s'"

text \<open>A new viewer with one more light, called \<open>a\<close>.\<close>

definition one_light :: viewer where
  "one_light = state_of (and_then (Viewer 3)
     (createLight 3 ''a'' (Some (dir_light [0, 0, - 1] [1, 1, 1]))))"

text \<open>The viewer the constructor returns.\<close>

definition fresh_viewer :: viewer where
  "fresh_viewer = state_of (Viewer 3)"

section \<open>Properties\<close>

text \<open>The definitions that a run on a concrete scene unfolds.\<close>

named_theorems evals

declare keys_def [evals] kput_def [evals] kdel_def [evals] for_each_def [evals]
  error_def [evals] warn_def [evals] type_of_def [evals] type_or_default_def [evals]
  setType_str_def [evals] getModels_def [evals] getLights_def [evals] getClips_def [evals]
  getAnnotations_def [evals] is_key_def [evals] objects_of_def [evals] logged_def [evals]
  show_def [evals] hide_def [evals] opacity_or_default_def [evals] getOpacity_def [evals]
  color_or_default_def [evals] set_material_color_def [evals] getColor_def [evals]
  falsy_def [evals] elements_def [evals] destroy_everything_def [evals]
  destroy_annotation_def [evals] destroy_light_def [evals] destroy_clip_def [evals]
  deregister_object_def [evals] entities_of_def [evals] destroy_model_def [evals]
  destroy_named_def [evals] destroyAnnotations_def [evals] destroyClips_def [evals]
  destroyLights_def [evals] clear_def [evals] createLight_def [evals] dir_light_def [evals]
  defaultLights_def [evals] createClip_def [evals] flag_or_true_def [evals]
  text_or_empty_def [evals] createAnnotation_def [evals] blank_entity_def [evals]
  blank_model_def [evals] blank_node_def [evals] new_viewer_def [evals] Viewer_def [evals]
  returns_def [evals] state_of_def [evals] new_node_def [evals] loadModel_def [evals]
  parse_def [evals] register_object_def [evals] on_loaded_def [evals] load_def [evals]
  getComponent_def [evals] center_of_def [evals] component_id_def [evals]
  set_transform_def [evals] subVec3_def [evals] mulVec3Scalar_def [evals]
  buildModelTransform_def [evals] buildObjectTransform_def [evals]
  getTransformableComponent_def [evals] set_vals_def [evals] setScale_str_def [evals]
  getScale_def [evals] setRotate_str_def [evals] getRotate_def [evals]
  setTranslate_str_def [evals] getTranslate_def [evals] transform_chain_def [evals]
  mulVec3_def [evals] chain_scale_def [evals] effective_scale_def [evals]
  setEyeLookUp_def [evals] getEye_def [evals] getLook_def [evals] getUp_def [evals]
  setProjection_def [evals] differs_def [evals] bm_getTranslate_def [evals]
  bm_getScale_def [evals] bm_getRotate_def [evals] bm_getSrc_def [evals] bm_model_def [evals]
  bm_object_def [evals] nonempty_def [evals] unless_true_def [evals] bm_annotation_def [evals]
  bm_clip_def [evals] some_if_nonempty_def [evals] unless_def [evals] getBookmark_def [evals]
  apply_opt_def [evals] restore_object_def [evals] number_or_def [evals] truthy_or_def [evals]
  restore_settings_def [evals] invisible_ids_def [evals] setBookmark_def [evals]
  lower_def [evals] upper_def [evals] add_aabb_def [evals] add_pos_def [evals]
  component_or_model_def [evals] aabb_one_def [evals] aabb_round_def [evals]
  aabb_many_def [evals] aabb_list_def [evals] denotes_def [evals] part_def [evals]
  saw_file_def [evals] gear_file_def [evals] files_def [evals] saw_scene_def [evals]
  two_models_def [evals] two_lights_def [evals] owned_by_def [evals]
  lists_its_objects_def [evals] typed_scene_def [evals] in_own_bucket_def [evals]
  only_in_own_bucket_def [evals] in_some_bucket_def [evals] cover_scene_def [evals]
  prototype_members_def [evals] array_index_def [evals] plain_id_def [evals]
  annotations_ok_def [evals] registry_ok_def [evals] same_registry_def [evals]
  one_light_def [evals] fresh_viewer_def [evals]

text \<open>End of the list.\<close>

subsection \<open>The example scenes\<close>

lemma saw_scene_fields:
  "objects saw_scene = [''saw#1'', ''saw#2'']"
  "models saw_scene = [''saw'']"
  "objectModels saw_scene = [(''saw#1'', ''saw''), (''saw#2'', ''saw'')]"
  "types saw_scene = [(''DEFAULT'', [''saw#1'', ''saw#2''])]"
  "transformable saw_scene = []"
  "scales saw_scene = []"
  "translations saw_scene = []"
  "rotations saw_scene = []"
  "eulerAngles saw_scene = []"
  "annotations saw_scene = []"
  "clips saw_scene = []"
  "keys (lights saw_scene) = [''light0'', ''light1'', ''light2'', ''light3'']"
  "t_next saw_scene = 3"
  "m_transform (mods saw_scene ''saw'') = 2"
  "m_entities (mods saw_scene ''saw'') = Some [''saw#1'', ''saw#2'']"
  "theap saw_scene 2 = \<lparr>t_kind = Scale, t_vals = [1, 1, 1], t_parent = Some 1\<rparr>"
  "theap saw_scene 1 = \<lparr>t_kind = Quaternion, t_vals = [0, 0, 0], t_parent = Some 0\<rparr>"
  "theap saw_scene 0 = \<lparr>t_kind = Translate, t_vals = [0, 0, 0], t_parent = None\<rparr>"
  "scene_center saw_scene = [0, 0, 0]"
  "e_center (ents saw_scene ''saw#1'') = [0, 0, 0]"
  "e_matrix (ents saw_scene ''saw#1'') = []"
  "meta_type (ents saw_scene ''saw#1'') = None"
  "m_center (mods saw_scene ''saw'') = [1, 1, 1]"
  by (simp_all add: evals Let_def eval_nat_numeral)

lemma typed_scene_fields:
  "objects typed_scene = [''saw#1'', ''saw#2'', ''gear#1'']"
  "models typed_scene = [''saw'', ''gear'']"
  "objectModels typed_scene = [(''saw#1'', ''saw''), (''saw#2'', ''saw''), (''gear#1'', ''gear'')]"
  "types typed_scene = [(''DEFAULT'', [''saw#1'', ''saw#2'']), (''saw'', [''gear#1''])]"
  "m_entities (mods typed_scene ''saw'') = Some [''saw#1'', ''saw#2'']"
  "m_entities (mods typed_scene ''gear'') = Some [''gear#1'']"
  "annotations typed_scene = []"
  "clips typed_scene = []"
  "keys (lights typed_scene) = [''light0'', ''light1'', ''light2'', ''light3'']"
  "type_of (ents typed_scene ''saw#1'') = ''DEFAULT''"
  "type_of (ents typed_scene ''saw#2'') = ''DEFAULT''"
  "type_of (ents typed_scene ''gear#1'') = ''saw''"
  by (simp_all add: evals Let_def eval_nat_numeral)

subsection \<open>getObjects\<close>




lemma distinct_first_occurrences: "distinct (first_occurrences xs)"
  by (induction xs) auto

lemma set_first_occurrences: "set (first_occurrences xs) = set xs"
  by (induction xs) auto




subsection \<open>setType\<close>



lemma setType_str_objects [simp]: "objects (setType_str x T s) = objects s"
  by (simp add: setType_str_def Let_def error_def split: option.splits)









subsection \<open>destroy on a string that names nothing\<close>







subsection \<open>setScale twice\<close>

lemma getComponent_id: "getComponent s ident = Some c \<Longrightarrow> component_id c = ident"
  by (auto simp: getComponent_def component_id_def split: if_splits)

lemma scales_set_vals [simp]: "scales (set_vals p xyz s) = scales s"
  by (simp add: set_vals_def)

lemma set_vals_twice [simp]: "set_vals p xyz (set_vals p xyz s) = set_vals p xyz s"
  by (simp add: set_vals_def)

lemma scales_buildModelTransform:
  "\<exists>p. map_of (scales (buildModelTransform c s)) (component_id c) = Some p"
  by (cases c) (simp_all add: buildModelTransform_def Let_def new_node_def set_transform_def
      AList.update_conv')

lemma scales_buildObjectTransform:
  "buildObjectTransform x s = Ok s1 \<Longrightarrow> \<exists>p. map_of (scales s1) x = Some p"
  by (auto simp: buildObjectTransform_def Let_def new_node_def set_transform_def
      AList.update_conv' split: option.splits)

text \<open>
  C9. For an id that \<open>getComponent\<close> resolves to an object or a model, \<open>setScale\<close> with a
  value, called twice, comes to the same as calling it once: the same state, or the same
  failure. This holds for every value, \<open>[1, 1, 1]\<close> among them.
\<close>

theorem setScale_idempotent:
  assumes "getComponent s ident \<noteq> None"
  shows "and_then (setScale (Str ident) xyz s) (setScale (Str ident) xyz)
         = setScale (Str ident) xyz s"
proof (cases "map_of (scales s) ident")
  case (Some p)
  then show ?thesis by (simp add: setScale_str_def)
next
  case None
  from assms obtain c where gc: "getComponent s ident = Some c" by auto
  then have cid: "component_id c = ident" by (rule getComponent_id)
  consider (built) "ident \<in> set (transformable s)"
    | (model) "ident \<notin> set (transformable s)" "ident \<in> set (models s)"
    | (object) "ident \<notin> set (transformable s)" "ident \<notin> set (models s)"
    by blast
  then show ?thesis
  proof cases
    case built
    with None gc show ?thesis
      by (simp add: setScale_str_def getTransformableComponent_def)
  next
    case model
    from scales_buildModelTransform [of c s] cid
    obtain p where "map_of (scales (buildModelTransform c s)) ident = Some p" by auto
    with None gc model show ?thesis
      by (simp add: setScale_str_def getTransformableComponent_def)
  next
    case object
    show ?thesis
    proof (cases "buildObjectTransform ident s")
      case (Ok s1)
      from scales_buildObjectTransform [OF Ok]
      obtain p where "map_of (scales s1) ident = Some p" by auto
      with None gc object cid Ok show ?thesis
        by (simp add: setScale_str_def getTransformableComponent_def)
    next
      case StackOverflow
      with None gc object cid show ?thesis
        by (simp add: setScale_str_def getTransformableComponent_def)
    next
      case TypeError
      with None gc object cid show ?thesis
        by (simp add: setScale_str_def getTransformableComponent_def)
    qed
  qed
qed

theorem setScale_idempotent_witness:
  "getComponent saw_scene ''saw#1'' \<noteq> None
   \<and> returns (setScale (Str ''saw#1'') [1, 1, 1] saw_scene)
   \<and> and_then (setScale (Str ''saw#1'') [1, 1, 1] saw_scene) (setScale (Str ''saw#1'') [1, 1, 1])
       = setScale (Str ''saw#1'') [1, 1, 1] saw_scene"
proof -
  have a: "getComponent saw_scene ''saw#1'' \<noteq> None"
    by (simp add: getComponent_def saw_scene_fields)
  have b: "returns (setScale (Str ''saw#1'') [1, 1, 1] saw_scene)"
    by (simp add: saw_scene_fields setScale_str_def getTransformableComponent_def
        getComponent_def buildObjectTransform_def new_node_def set_transform_def Let_def
        returns_def AList.update_conv' component_id_def)
  from a b setScale_idempotent [OF a, of "[1, 1, 1]"] show ?thesis by simp
qed

subsection \<open>destroy on a model\<close>

lemma deregister_object_fields [simp]:
  "ents (deregister_object x s) = ents s"
  "objects (deregister_object x s) = kdel x (objects s)"
  "objectModels (deregister_object x s) = AList.delete x (objectModels s)"
  "eulerAngles (deregister_object x s) = AList.delete x (eulerAngles s)"
  "transformable (deregister_object x s) = kdel x (transformable s)"
  "translations (deregister_object x s) = AList.delete x (translations s)"
  "rotations (deregister_object x s) = AList.delete x (rotations s)"
  "scales (deregister_object x s) = AList.delete x (scales s)"
  "models (deregister_object x s) = models s"
  "mods (deregister_object x s) = mods s"
  "components (deregister_object x s) = components s"
  "modelSrcs (deregister_object x s) = modelSrcs s"
  by (simp_all add: deregister_object_def Let_def split: option.splits)

lemma deregister_object_types:
  "map_of (types (deregister_object x s)) t =
     (if t = type_of (ents s x) then map_option (kdel x) (map_of (types s) t)
      else map_of (types s) t)"
  by (simp add: deregister_object_def Let_def AList.update_conv' split: option.splits)

lemma fold_deregister_fields [simp]:
  "ents (fold deregister_object es s) = ents s"
  "objects (fold deregister_object es s) = fold kdel es (objects s)"
  "objectModels (fold deregister_object es s) = fold AList.delete es (objectModels s)"
  "eulerAngles (fold deregister_object es s) = fold AList.delete es (eulerAngles s)"
  "transformable (fold deregister_object es s) = fold kdel es (transformable s)"
  "translations (fold deregister_object es s) = fold AList.delete es (translations s)"
  "rotations (fold deregister_object es s) = fold AList.delete es (rotations s)"
  "scales (fold deregister_object es s) = fold AList.delete es (scales s)"
  "models (fold deregister_object es s) = models s"
  "mods (fold deregister_object es s) = mods s"
  "components (fold deregister_object es s) = components s"
  "modelSrcs (fold deregister_object es s) = modelSrcs s"
  by (induction es arbitrary: s; simp)+

lemma set_fold_kdel: "set (fold kdel es ks) = set ks - set es"
  by (induction es arbitrary: ks) (auto simp: kdel_def)

lemma map_of_fold_delete:
  "map_of (fold AList.delete es d) k = (if k \<in> set es then None else map_of d k)"
  by (induction es arbitrary: d) (auto simp: AList.delete_conv')

lemma fold_deregister_buckets:
  "map_of (types (fold deregister_object es s)) t = Some b \<Longrightarrow>
   \<exists>b0. map_of (types s) t = Some b0 \<and> set b \<subseteq> set b0"
proof (induction es arbitrary: s b)
  case Nil
  then show ?case by simp
next
  case (Cons x es)
  from Cons.IH [of "deregister_object x s" b] Cons.prems
  obtain b1 where b1: "map_of (types (deregister_object x s)) t = Some b1" "set b \<subseteq> set b1"
    by auto
  then show ?case
    by (auto simp: deregister_object_types kdel_def split: if_splits)
qed

lemma fold_deregister_keeps_keys:
  "map_of (types (fold deregister_object es s)) t = None \<longleftrightarrow> map_of (types s) t = None"
  by (induction es arbitrary: s) (auto simp: deregister_object_types)

lemma deregister_object_removes:
  assumes "only_in_own_bucket s x"
  shows "\<not> in_some_bucket (deregister_object x s) x"
  using assms
  by (auto simp: only_in_own_bucket_def in_some_bucket_def deregister_object_types kdel_def
      split: if_splits)

lemma deregister_object_only_in_own_bucket:
  assumes "only_in_own_bucket s x"
  shows "only_in_own_bucket (deregister_object y s) x"
  using assms
  by (auto simp: only_in_own_bucket_def deregister_object_types kdel_def split: if_splits)

lemma fold_deregister_removes:
  assumes "x \<in> set es" and "only_in_own_bucket s x"
  shows "\<not> in_some_bucket (fold deregister_object es s) x"
  using assms
proof (induction es arbitrary: s)
  case Nil
  then show ?case by simp
next
  case (Cons y es)
  show ?case
  proof (cases "y = x")
    case True
    from deregister_object_removes [OF Cons.prems(2)]
    have "\<not> in_some_bucket (deregister_object x s) x" .
    with True show ?thesis
      using fold_deregister_buckets [of es "deregister_object x s"]
      by (fastforce simp: in_some_bucket_def)
  next
    case False
    with Cons.prems have "x \<in> set es" by simp
    from Cons.IH [OF this deregister_object_only_in_own_bucket [OF Cons.prems(2)]]
    show ?thesis by simp
  qed
qed

lemma destroy_model_fields:
  "objects (destroy_model m s) = fold kdel (entities_of s m) (objects s)"
  "types (destroy_model m s) = types (fold deregister_object (entities_of s m) s)"
  "models (destroy_model m s) = kdel m (models s)"
  "objectModels (destroy_model m s) = fold AList.delete (entities_of s m) (objectModels s)"
  "eulerAngles (destroy_model m s) = AList.delete m (fold AList.delete (entities_of s m) (eulerAngles s))"
  "transformable (destroy_model m s) = kdel m (fold kdel (entities_of s m) (transformable s))"
  "translations (destroy_model m s) = AList.delete m (fold AList.delete (entities_of s m) (translations s))"
  "rotations (destroy_model m s) = AList.delete m (fold AList.delete (entities_of s m) (rotations s))"
  "scales (destroy_model m s) = AList.delete m (fold AList.delete (entities_of s m) (scales s))"
  by (simp_all add: destroy_model_def Let_def)

lemma destroy_reaches_model:
  assumes "m \<in> set (models s)" and "m \<noteq> []" and "\<not> is_key (annotations s) m"
    and "\<not> is_key (lights s) m" and "\<not> is_key (clips s) m"
  shows "destroy (Suc n) (Str m) s = Ok (destroy_model m s)"
  using assms by (simp add: falsy_def destroy_named_def is_key_def split: option.splits)

text \<open>
  C5, as amended. Let \<open>m\<close> be a loaded model whose id is not empty and not the id of an
  annotation, a light or a clip plane, and \<open>x\<close> one of its entities, in no bucket other
  than that of its type. Then \<open>destroy(m)\<close> returns, and afterwards \<open>x\<close> is in none of
  \<open>objects\<close>, the type buckets, \<open>objectModels\<close>, \<open>eulerAngles\<close>, \<open>transformable\<close>,
  \<open>translations\<close>, \<open>rotations\<close>, \<open>scales\<close>, and not among all objects. If \<open>m\<close> is not
  the id of an object or the name of a type bucket, \<open>getObjects(m)\<close> then finds nothing
  and logs that the model is not found.
\<close>

theorem destroy_model_removes_objects:
  assumes "m \<in> set (models s)" and "m \<noteq> []" and "\<not> is_key (annotations s) m"
    and "\<not> is_key (lights s) m" and "\<not> is_key (clips s) m"
    and "x \<in> set (entities_of s m)" and "only_in_own_bucket s x"
  shows "destroy (Suc n) (Str m) s = Ok (destroy_model m s)
    \<and> x \<notin> set (objects (destroy_model m s))
    \<and> \<not> in_some_bucket (destroy_model m s) x
    \<and> map_of (objectModels (destroy_model m s)) x = None
    \<and> map_of (eulerAngles (destroy_model m s)) x = None
    \<and> x \<notin> set (transformable (destroy_model m s))
    \<and> map_of (translations (destroy_model m s)) x = None
    \<and> map_of (rotations (destroy_model m s)) x = None
    \<and> map_of (scales (destroy_model m s)) x = None
    \<and> x \<notin> set (fst (getObjects (destroy_model m s) Undefined))
    \<and> (m \<notin> set (objects s) \<and> map_of (types s) m = None \<longrightarrow>
         getObjects (destroy_model m s) (Str m) = ([], [''Model not found: '' @ m]))"
proof -
  let ?s' = "destroy_model m s"
  have a: "destroy (Suc n) (Str m) s = Ok ?s'" by (rule destroy_reaches_model [OF assms(1-5)])
  have b: "x \<notin> set (objects ?s')" using assms(6)
    by (simp add: destroy_model_fields set_fold_kdel)
  have c: "\<not> in_some_bucket ?s' x"
    using fold_deregister_removes [OF assms(6,7)]
    by (simp add: in_some_bucket_def destroy_model_fields)
  have d: "map_of (objectModels ?s') x = None" "map_of (eulerAngles ?s') x = None"
    "map_of (translations ?s') x = None" "map_of (rotations ?s') x = None"
    "map_of (scales ?s') x = None"
    using assms(6)
    by (simp_all add: destroy_model_fields map_of_fold_delete AList.delete_conv')
  have e: "x \<notin> set (transformable ?s')" using assms(6)
    by (simp add: destroy_model_fields set_fold_kdel kdel_def)
  have f: "m \<notin> set (objects s) \<and> map_of (types s) m = None \<longrightarrow>
         getObjects ?s' (Str m) = ([], [''Model not found: '' @ m])"
    using fold_deregister_keeps_keys [of "entities_of s m" s m]
    by (auto simp: destroy_model_fields set_fold_kdel kdel_def)
  from a b c d e f show ?thesis by simp
qed

lemma is_key_keys: "is_key d k \<longleftrightarrow> k \<in> set (keys d)"
  by (simp add: is_key_def keys_def map_of_eq_None_iff)

theorem destroy_model_removes_objects_witness:
  "''saw'' \<in> set (models saw_scene) \<and> ''saw'' \<noteq> [] \<and> \<not> is_key (annotations saw_scene) ''saw''
   \<and> \<not> is_key (lights saw_scene) ''saw'' \<and> \<not> is_key (clips saw_scene) ''saw''
   \<and> ''saw#1'' \<in> set (entities_of saw_scene ''saw'') \<and> only_in_own_bucket saw_scene ''saw#1''
   \<and> destroy 2 (Str ''saw'') saw_scene = Ok (destroy_model ''saw'' saw_scene)
   \<and> ''saw#1'' \<notin> set (objects (destroy_model ''saw'' saw_scene))
   \<and> \<not> in_some_bucket (destroy_model ''saw'' saw_scene) ''saw#1''
   \<and> getObjects (destroy_model ''saw'' saw_scene) (Str ''saw'') = ([], [''Model not found: saw''])"
proof -
  have a: "''saw'' \<in> set (models saw_scene)" by (simp add: saw_scene_fields)
  have b: "''saw'' \<noteq> []" by simp
  have c: "\<not> is_key (annotations saw_scene) ''saw''" by (simp add: is_key_def saw_scene_fields)
  have d: "\<not> is_key (lights saw_scene) ''saw''" by (simp add: is_key_keys saw_scene_fields)
  have e: "\<not> is_key (clips saw_scene) ''saw''" by (simp add: is_key_def saw_scene_fields)
  have f: "''saw#1'' \<in> set (entities_of saw_scene ''saw'')"
    by (simp add: entities_of_def saw_scene_fields)
  have g: "only_in_own_bucket saw_scene ''saw#1''"
    by (auto simp: only_in_own_bucket_def type_of_def saw_scene_fields split: if_splits)
  have h: "''saw'' \<notin> set (objects saw_scene) \<and> map_of (types saw_scene) ''saw'' = None"
    by (simp add: saw_scene_fields)
  from destroy_model_removes_objects [OF a b c d e f g, of "Suc 0"] a b c d e f g h
  show ?thesis by (simp add: eval_nat_numeral)
qed

text \<open>
  C5 as stated fails for a model whose id is also the name of a type bucket: in the scene
  where the object \<open>gear#1\<close> has the type \<open>saw\<close>, \<open>getObjects\<close> of the destroyed model
  \<open>saw\<close> returns that bucket and logs no error.
\<close>

theorem destroy_model_counterexample:
  "''saw'' \<in> set (models typed_scene)
   \<and> destroy 2 (Str ''saw'') typed_scene = Ok (destroy_model ''saw'' typed_scene)
   \<and> ''saw'' \<notin> set (models (destroy_model ''saw'' typed_scene))
   \<and> getObjects (destroy_model ''saw'' typed_scene) (Str ''saw'') = ([''gear#1''], [])"
proof -
  have a: "''saw'' \<in> set (models typed_scene)" by (simp add: typed_scene_fields)
  have c: "\<not> is_key (annotations typed_scene) ''saw''" by (simp add: is_key_def typed_scene_fields)
  have d: "\<not> is_key (lights typed_scene) ''saw''" by (simp add: is_key_keys typed_scene_fields)
  have e: "\<not> is_key (clips typed_scene) ''saw''" by (simp add: is_key_def typed_scene_fields)
  have f: "destroy 2 (Str ''saw'') typed_scene = Ok (destroy_model ''saw'' typed_scene)"
    using destroy_reaches_model [OF a _ c d e, of "Suc 0"] by (simp add: eval_nat_numeral)
  have g: "getObjects (destroy_model ''saw'' typed_scene) (Str ''saw'') = ([''gear#1''], [])"
    by (simp add: destroy_model_fields entities_of_def typed_scene_fields kdel_def
        deregister_object_types)
  have h: "''saw'' \<notin> set (models (destroy_model ''saw'' typed_scene))"
    by (simp add: destroy_model_fields kdel_def typed_scene_fields)
  from a f g h show ?thesis by simp
qed

subsection \<open>The order in which an id is resolved\<close>



lemma opacity_or_default_Some [simp]: "opacity_or_default (Some x) = x"
  by (simp add: opacity_or_default_def)

lemma color_or_default_Some [simp]: "color_or_default (Some x) = x"
  by (simp add: color_or_default_def)










end
